theory Spec2Isabelle
  imports Main "HOL-Library.Word"
begin

unbundle bit_operations_syntax

section \<open>The startup of the bfdd daemon: src/bfdd/bfdd-main.c\<close>

text \<open>
  The file holds two functions, \<open>bfddUsage\<close> and \<open>main\<close>. \<open>main\<close> is modelled as a
  function from what the process receives (the options \<open>getopt\<close> yields, the parsed
  configuration file, the answers of the library calls) to the sequence of calls it makes
  on its collaborators and the way startup ends. Every \<open>exit\<close> and every \<open>continue\<close> of
  the source is a branch of the model.
\<close>

subsection \<open>Values and collaborators\<close>

type_synonym int32 = "32 word"
type_synonym in_addr = "32 word"

text \<open>The arguments of a printf-style call: \<open>%d\<close>, \<open>%s\<close> and the result of \<open>inet_ntoa\<close>.\<close>

datatype arg = I int | S string | A in_addr

datatype log_level = LOG_ERR | LOG_WARNING | LOG_NOTICE | LOG_INFO

datatype actor = bfdStartPollSequence | bfdToggleAdminDown

datatype signal = SIGUSR1 | SIGUSR2

text \<open>
  The session record, with the fields \<open>main\<close> assigns (lines 274 to 280); their widths are
  those of the casts in the assignments. \<open>memset\<close> zeroes every other field.
\<close>

record bfdSession =
  DemandMode :: "8 word"
  DetectMult :: "8 word"
  DesiredMinTxInterval :: "32 word"
  RequiredMinRxInterval :: "32 word"
  PeerAddr :: in_addr
  PeerPort :: "16 word"
  LocalPort :: "16 word"

text \<open>The calls \<open>main\<close> makes that can be observed from outside, in the order it makes them.\<close>

datatype event =
    BfdLogInit
  | BfdLogMore
  | Fprintf_stderr string "arg list"
  | BfdLog log_level string "arg list"
  | Daemon int int
  | Srandom
  | TpInitTimers
  | TpSetSignalActor actor signal
  | ConfigInit
  | ConfigDestroy
  | BfdRegisterSession bfdSession
  | BfdMonitorSetupServer "16 word"
  | TpDoEventLoop

text \<open>
  How \<open>main\<close> ends: \<open>Exit st\<close> is a call of \<open>exit(st)\<close> during startup; \<open>EventLoop\<close> says that
  startup is complete and control is inside \<open>tpDoEventLoop\<close> (line 294), which is not
  expected to return.
\<close>

datatype outcome = Exit int | EventLoop

text \<open>What \<open>getopt(argc, argv, "c:dm:vx:")\<close> yields, one value for each round of the loop.\<close>

datatype opt = Opt_c string | Opt_d | Opt_m string | Opt_v | Opt_x string | Opt_other

record cmdline =
  configFile :: "string option"
  daemon_mode :: bool
  monitor_port :: "16 word"

text \<open>
  A member of the \<open>Sessions\<close> list as libconfig presents it: each field is the result of
  the lookup \<open>main\<close> makes for it, \<open>None\<close> where the lookup returns false.
\<close>

record session_setting =
  cfg_PeerAddress :: "string option"
  cfg_PeerPort :: "int32 option"
  cfg_LocalPort :: "int32 option"
  cfg_DemandMode :: "int32 option"
  cfg_DetectMult :: "int32 option"
  cfg_RequiredMinRxInterval :: "int32 option"
  cfg_DesiredMinTxInterval :: "int32 option"

text \<open>A member of the \<open>Extensions\<close> list: \<open>config_setting_name\<close> and \<open>config_setting_get_bool\<close>.\<close>

record ext_setting =
  ext_name :: "string option"
  ext_bool :: bool

record config =
  Extensions :: "ext_setting list option"
  Sessions :: "session_setting list option"

record hostent =
  h_addrtype :: int
  h_addr :: in_addr

definition AF_INET :: int where
  "AF_INET = 2"

text \<open>
  The collaborators of \<open>main\<close> whose code is outside this file are parameters. The
  extension gate keeps a state of type \<open>'x\<close>: \<open>bfdExtEnable\<close> takes a name and answers
  whether it enabled it, \<open>bfdExtCheck\<close> answers whether an extension is enabled.
  \<open>config_read_file\<close> answers with the error (file, line, text) or with the settings;
  \<open>gethostbyname\<close> with the text of \<open>hstrerror\<close> or with the host entry. \<open>malloc_ok i\<close>
  says whether the allocation for descriptor \<open>i\<close> succeeds, and \<open>bfdRegisterSession\<close>
  answers from the records registered so far and the new one.
\<close>

record 'x env =
  DEFAULT_MONITOR_PORT :: "16 word"
  BFD_EXT_MAX :: nat
  BFD_EXT_SPECIFYPORTS :: nat
  BFDDFLT_DETECTMULT :: int32
  BFDDFLT_REQUIREDMINRX :: int32
  BFDDFLT_DESIREDMINTX :: int32
  bfdExtDescribe :: "nat \<Rightarrow> string \<times> string"
  bfdExtEnable :: "'x \<Rightarrow> string \<Rightarrow> bool \<times> 'x"
  bfdExtCheck :: "'x \<Rightarrow> nat \<Rightarrow> bool"
  sscanf_u16 :: "string \<Rightarrow> 16 word option"
  daemon_ok :: bool
  config_read_file :: "string \<Rightarrow> (string \<times> int \<times> string) + config"
  gethostbyname :: "string \<Rightarrow> string + hostent"
  malloc_ok :: "nat \<Rightarrow> bool"
  bfdRegisterSession :: "bfdSession list \<Rightarrow> bfdSession \<Rightarrow> bool"

definition prepend :: "event list \<Rightarrow> event list \<times> 'r \<Rightarrow> event list \<times> 'r" where
  "prepend evs p = (evs @ fst p, snd p)"

subsection \<open>bfddUsage (lines 21 to 46)\<close>

definition tab :: string where
  "tab = [CHR 0x09]"

definition bfddUsage :: "'x env \<Rightarrow> event list" where
  "bfddUsage env =
     [Fprintf_stderr ''Usage:\<newline>'' [],
      Fprintf_stderr (tab @ ''bfdd [options] -c config-file [-v]\<newline>'') [],
      Fprintf_stderr ''Where:\<newline>'' [],
      Fprintf_stderr (tab @ ''-c: load 'config-file' for startup configuration\<newline>'') [],
      Fprintf_stderr ''Options:\<newline>'' [],
      Fprintf_stderr (tab @ ''-d: Do not run in daemon mode\<newline>'') [],
      Fprintf_stderr (tab @ ''-m port: Port monitor server will listen on (default %d)\<newline>'')
        [I (uint (DEFAULT_MONITOR_PORT env))],
      Fprintf_stderr (tab @ ''-v: increase level of debug output (can be repeated)\<newline>'') [],
      Fprintf_stderr (tab @ ''-x extension: enable a named extension (can be repeated)\<newline>'') []]
     @ map (\<lambda>idx. Fprintf_stderr (tab @ tab @ ''%s'' @ tab @ ''%s\<newline>'')
              [S (fst (bfdExtDescribe env idx)), S (snd (bfdExtDescribe env idx))])
         [0 ..< BFD_EXT_MAX env]
     @ [Fprintf_stderr ''\<newline>'' [],
        Fprintf_stderr ''Signals:\<newline>'' [],
        Fprintf_stderr (tab @ ''USR1: start poll sequence on all demand mode sessions\<newline>'') [],
        Fprintf_stderr (tab @ ''USR2: toggle admin down on all sessions\<newline>'') []]"

subsection \<open>main: the command line (lines 62 to 100)\<close>

fun getopt_loop ::
  "'x env \<Rightarrow> opt list \<Rightarrow> cmdline \<Rightarrow> 'x \<Rightarrow> event list \<times> (int + cmdline \<times> 'x)" where
  "getopt_loop env [] cmd x = ([], Inr (cmd, x))"
| "getopt_loop env (Opt_c a # os) cmd x =
     getopt_loop env os (cmd\<lparr>configFile := Some a\<rparr>) x"
| "getopt_loop env (Opt_d # os) cmd x =
     getopt_loop env os (cmd\<lparr>daemon_mode := False\<rparr>) x"
| "getopt_loop env (Opt_m a # os) cmd x =
     (case sscanf_u16 env a of
        None \<Rightarrow>
          (Fprintf_stderr ''Expected integer for monitor port.\<newline>'' [] # bfddUsage env, Inl 1)
      | Some p \<Rightarrow> getopt_loop env os (cmd\<lparr>monitor_port := p\<rparr>) x)"
| "getopt_loop env (Opt_v # os) cmd x =
     prepend [BfdLogMore] (getopt_loop env os cmd x)"
| "getopt_loop env (Opt_x a # os) cmd x =
     (if \<not> fst (bfdExtEnable env x a)
      then (Fprintf_stderr ''Invalid extension: %s\<newline>'' [S a] # bfddUsage env, Inl 1)
      else getopt_loop env os cmd (snd (bfdExtEnable env x a)))"
| "getopt_loop env (Opt_other # os) cmd x = (bfddUsage env, Inl 1)"

subsection \<open>main: the Extensions list (lines 132 to 159)\<close>

fun extensions_loop ::
  "'x env \<Rightarrow> 'x \<Rightarrow> nat \<Rightarrow> ext_setting list \<Rightarrow> event list \<times> 'x" where
  "extensions_loop env x i [] = ([], x)"
| "extensions_loop env x i (ext # exts) =
     (case ext_name ext of
        None \<Rightarrow>
          prepend [BfdLog LOG_WARNING ''Unnamed extension [%d] - ignoring\<newline>'' [I (int i)]]
            (extensions_loop env x (Suc i) exts)
      | Some extName \<Rightarrow>
          if \<not> ext_bool ext then extensions_loop env x (Suc i) exts
          else if \<not> fst (bfdExtEnable env x extName)
          then prepend
                 [BfdLog LOG_WARNING
                    ''Attempt to enable unknown extension [%s] - ignoring\<newline>'' [S extName]]
                 (extensions_loop env (snd (bfdExtEnable env x extName)) (Suc i) exts)
          else extensions_loop env (snd (bfdExtEnable env x extName)) (Suc i) exts)"

subsection \<open>main: one member of the Sessions list (lines 167 to 285)\<close>

text \<open>The local variables of the loop body once every lookup has been made.\<close>

record locals =
  connectaddr :: string
  peerPort :: int32
  localport :: int32
  demandMode :: int32
  detectMult :: int32
  reqMinRx :: int32
  desMinTx :: int32

text \<open>Lines 186 to 203. \<open>Inl\<close> carries the log of a \<open>continue\<close>.\<close>

definition lookup_PeerPort ::
  "'x env \<Rightarrow> 'x \<Rightarrow> nat \<Rightarrow> session_setting \<Rightarrow> event list + int32" where
  "lookup_PeerPort env x i sn =
     (case cfg_PeerPort sn of
        Some p \<Rightarrow>
          if p AND 0xffff0000 \<noteq> 0
          then Inl [BfdLog LOG_WARNING
                      ''Session %d PeerPort out of range: %d - Skipping Session!\<newline>''
                      [I (int i), I (sint p)]]
          else if \<not> bfdExtCheck env x (BFD_EXT_SPECIFYPORTS env)
          then Inl [BfdLog LOG_WARNING ''Invalid remote port: %d - Skipping Session!\<newline>''
                      [I (sint p)],
                    BfdLog LOG_WARNING
                      ''Did you forget to enable the SpecifyPorts extension?\<newline>'' []]
          else Inr p
      | None \<Rightarrow> Inr 3784)"

text \<open>Lines 205 to 221.\<close>

definition lookup_LocalPort ::
  "'x env \<Rightarrow> 'x \<Rightarrow> nat \<Rightarrow> session_setting \<Rightarrow> event list + int32" where
  "lookup_LocalPort env x i sn =
     (case cfg_LocalPort sn of
        Some p \<Rightarrow>
          if p AND 0xffff0000 \<noteq> 0
          then Inl [BfdLog LOG_WARNING
                      ''Session %d LocalPort out of range: %d - Skipping Session!\<newline>''
                      [I (int i), I (sint p)]]
          else if \<not> bfdExtCheck env x (BFD_EXT_SPECIFYPORTS env)
          then Inl [BfdLog LOG_WARNING ''Invalid local port: %d - Skipping Session!\<newline>''
                      [I (sint p)],
                    BfdLog LOG_WARNING
                      ''Did you forget to enable the SpecifyPorts extension?\<newline>'' []]
          else Inr p
      | None \<Rightarrow> Inr 3784)"

text \<open>Lines 227 to 235. The message prints \<open>localport\<close>, as the source does.\<close>

definition lookup_DetectMult ::
  "'x env \<Rightarrow> nat \<Rightarrow> int32 \<Rightarrow> session_setting \<Rightarrow> event list + int32" where
  "lookup_DetectMult env i lport sn =
     (case cfg_DetectMult sn of
        Some d \<Rightarrow>
          if d AND 0xffffff00 \<noteq> 0
          then Inl [BfdLog LOG_ERR
                      ''Session %d DetectMult out of range: %d - Skipping Session!\<newline>''
                      [I (int i), I (sint lport)]]
          else Inr d
      | None \<Rightarrow> Inr (BFDDFLT_DETECTMULT env))"

text \<open>Lines 180 to 243: the lookups, in the order of the source.\<close>

definition parse_session ::
  "'x env \<Rightarrow> 'x \<Rightarrow> nat \<Rightarrow> session_setting \<Rightarrow> event list + locals" where
  "parse_session env x i sn =
     (case cfg_PeerAddress sn of
        None \<Rightarrow>
          Inl [BfdLog LOG_WARNING ''Session %d missing PeerAddress - Skipping Session!\<newline>''
                 [I (int i)]]
      | Some a \<Rightarrow>
         (case lookup_PeerPort env x i sn of
            Inl evs \<Rightarrow> Inl evs
          | Inr pp \<Rightarrow>
             (case lookup_LocalPort env x i sn of
                Inl evs \<Rightarrow> Inl evs
              | Inr lp \<Rightarrow>
                 (case lookup_DetectMult env i lp sn of
                    Inl evs \<Rightarrow> Inl evs
                  | Inr dm \<Rightarrow>
                      Inr \<lparr>connectaddr = a,
                           peerPort = pp,
                           localport = lp,
                           demandMode = (case cfg_DemandMode sn of Some d \<Rightarrow> d | None \<Rightarrow> 0),
                           detectMult = dm,
                           reqMinRx = (case cfg_RequiredMinRxInterval sn of
                                         Some r \<Rightarrow> r | None \<Rightarrow> BFDDFLT_REQUIREDMINRX env),
                           desMinTx = (case cfg_DesiredMinTxInterval sn of
                                         Some t \<Rightarrow> t | None \<Rightarrow> BFDDFLT_DESIREDMINTX env)\<rparr>))))"

text \<open>Lines 272 to 280: the record handed to \<open>bfdRegisterSession\<close>.\<close>

definition make_session :: "locals \<Rightarrow> in_addr \<Rightarrow> bfdSession" where
  "make_session l peeraddr =
     \<lparr>DemandMode = ucast (demandMode l AND 1),
      DetectMult = ucast (detectMult l),
      DesiredMinTxInterval = desMinTx l,
      RequiredMinRxInterval = reqMinRx l,
      PeerAddr = peeraddr,
      PeerPort = ucast (peerPort l),
      LocalPort = ucast (localport l)\<rparr>"

text \<open>
  The three ways the loop body ends: \<open>continue\<close> (the descriptor is skipped), the end of
  the body after a successful registration, and \<open>exit\<close>.
\<close>

datatype body_result =
    Continue "event list"
  | Registered "event list" bfdSession
  | Exits "event list" int

definition notice_line :: "nat \<Rightarrow> locals \<Rightarrow> event" where
  "notice_line i l =
     BfdLog LOG_NOTICE
       ''BFD[%d]: demandModeDesired %s, detectMult %d, desiredMinTx %d, requiredMinRx %d\<newline>''
       [I (int i), S (if demandMode l \<noteq> 0 then ''on'' else ''off''), I (sint (detectMult l)),
        I (sint (desMinTx l)), I (sint (reqMinRx l))]"

text \<open>Lines 245 to 285.\<close>

definition create_session ::
  "'x env \<Rightarrow> bfdSession list \<Rightarrow> nat \<Rightarrow> locals \<Rightarrow> body_result" where
  "create_session env regs i l =
     (case gethostbyname env (connectaddr l) of
        Inl herr \<Rightarrow>
          Exits [notice_line i l,
                 BfdLog LOG_ERR ''Can't resolve %s: %s\<newline>'' [S (connectaddr l), S herr]] 1
      | Inr hp \<Rightarrow>
          if h_addrtype hp \<noteq> AF_INET
          then Exits [notice_line i l,
                      BfdLog LOG_ERR ''Resolved address type not AF_INET\<newline>'' []] 1
          else if \<not> malloc_ok env i
          then Exits [notice_line i l,
                      BfdLog LOG_INFO ''Creating initial session with %s (%s)\<newline>''
                        [S (connectaddr l), A (h_addr hp)],
                      BfdLog LOG_NOTICE ''Can't malloc memory for new session: %m\<newline>'' []] 1
          else if \<not> bfdRegisterSession env regs (make_session l (h_addr hp))
          then Exits [notice_line i l,
                      BfdLog LOG_INFO ''Creating initial session with %s (%s)\<newline>''
                        [S (connectaddr l), A (h_addr hp)],
                      BfdRegisterSession (make_session l (h_addr hp)),
                      BfdLog LOG_ERR ''Can't create initial session: %m\<newline>'' []] 1
          else Registered
                 [notice_line i l,
                  BfdLog LOG_INFO ''Creating initial session with %s (%s)\<newline>''
                    [S (connectaddr l), A (h_addr hp)],
                  BfdRegisterSession (make_session l (h_addr hp))]
                 (make_session l (h_addr hp)))"

definition session_body ::
  "'x env \<Rightarrow> 'x \<Rightarrow> bfdSession list \<Rightarrow> nat \<Rightarrow> session_setting \<Rightarrow> body_result" where
  "session_body env x regs i sn =
     (case parse_session env x i sn of
        Inl evs \<Rightarrow> Continue evs
      | Inr l \<Rightarrow> create_session env regs i l)"

subsection \<open>main: the Sessions list (lines 161 to 287)\<close>

text \<open>
  \<open>regs\<close> is the list of the records registered so far, oldest first; the result is the
  log and either the status of an \<open>exit\<close> or the records registered when the loop ends.
\<close>

fun sessions_loop ::
  "'x env \<Rightarrow> 'x \<Rightarrow> bfdSession list \<Rightarrow> nat \<Rightarrow> session_setting list
     \<Rightarrow> event list \<times> (int + bfdSession list)" where
  "sessions_loop env x regs i [] = ([], Inr regs)"
| "sessions_loop env x regs i (sn # sns) =
     (case session_body env x regs i sn of
        Continue evs \<Rightarrow> prepend evs (sessions_loop env x regs (Suc i) sns)
      | Registered evs bfd \<Rightarrow> prepend evs (sessions_loop env x (regs @ [bfd]) (Suc i) sns)
      | Exits evs st \<Rightarrow> (evs, Inl st))"

subsection \<open>main: from the configuration file to the event loop (lines 119 to 297)\<close>

definition parse_extensions :: "'x env \<Rightarrow> 'x \<Rightarrow> config \<Rightarrow> event list \<times> 'x" where
  "parse_extensions env x cfg =
     (case Extensions cfg of None \<Rightarrow> ([], x) | Some exts \<Rightarrow> extensions_loop env x 0 exts)"

definition parse_sessions ::
  "'x env \<Rightarrow> 'x \<Rightarrow> config \<Rightarrow> event list \<times> (int + bfdSession list)" where
  "parse_sessions env x cfg =
     (case Sessions cfg of None \<Rightarrow> ([], Inr []) | Some sns \<Rightarrow> sessions_loop env x [] 0 sns)"

definition run_config :: "'x env \<Rightarrow> 'x \<Rightarrow> cmdline \<Rightarrow> string \<Rightarrow> event list \<times> outcome" where
  "run_config env x cmd f =
     (case config_read_file env f of
        Inl err \<Rightarrow>
          ([ConfigInit,
            BfdLog LOG_ERR ''Error loading config file [%s]: %s:%d - %s\<newline>''
              [S f, S (fst err), I (fst (snd err)), S (snd (snd err))],
            ConfigDestroy], Exit 1)
      | Inr cfg \<Rightarrow>
          (case parse_sessions env (snd (parse_extensions env x cfg)) cfg of
             (evs, Inl st) \<Rightarrow> (ConfigInit # fst (parse_extensions env x cfg) @ evs, Exit st)
           | (evs, Inr regs) \<Rightarrow>
               (ConfigInit # fst (parse_extensions env x cfg) @ evs
                  @ [ConfigDestroy, BfdMonitorSetupServer (monitor_port cmd), TpDoEventLoop],
                EventLoop)))"

subsection \<open>main (lines 51 to 298)\<close>

definition signal_actors :: "event list" where
  "signal_actors =
     [TpSetSignalActor bfdStartPollSequence SIGUSR1, TpSetSignalActor bfdToggleAdminDown SIGUSR2]"

text \<open>Lines 54 to 56: the initial values of the variables the options set.\<close>

definition init_cmdline :: "'x env \<Rightarrow> cmdline" where
  "init_cmdline env =
     \<lparr>configFile = None, daemon_mode = True, monitor_port = DEFAULT_MONITOR_PORT env\<rparr>"

text \<open>\<open>x0\<close> is the state of the extension gate when the process starts.\<close>

definition main :: "'x env \<Rightarrow> 'x \<Rightarrow> opt list \<Rightarrow> event list \<times> outcome" where
  "main env x0 opts =
     (case getopt_loop env opts (init_cmdline env) x0 of
        (evs, Inl st) \<Rightarrow> (BfdLogInit # evs, Exit st)
      | (evs, Inr (cmd, x)) \<Rightarrow>
         (case configFile cmd of
            None \<Rightarrow> (BfdLogInit # evs @ bfddUsage env, Exit 1)
          | Some f \<Rightarrow>
              if daemon_mode cmd \<and> \<not> daemon_ok env
              then (BfdLogInit # evs @ [Daemon 1 0, BfdLog LOG_ERR ''Unable to daemonize!'' []],
                    Exit 1)
              else prepend
                     (BfdLogInit # evs @ (if daemon_mode cmd then [Daemon 1 0] else [])
                        @ [Srandom, TpInitTimers] @ signal_actors)
                     (run_config env x cmd f)))"

subsection \<open>Vocabulary of the properties\<close>

text \<open>A configured value read as the signed integer the configuration file holds.\<close>

definition port_in_range :: "int32 \<Rightarrow> bool" where
  "port_in_range p = (0 \<le> sint p \<and> sint p \<le> 65535)"

definition is_warning :: "event \<Rightarrow> bool" where
  "is_warning e = (case e of BfdLog LOG_WARNING f as \<Rightarrow> True | _ \<Rightarrow> False)"

definition is_actor :: "event \<Rightarrow> bool" where
  "is_actor e = (case e of TpSetSignalActor a s \<Rightarrow> True | _ \<Rightarrow> False)"

definition is_register :: "event \<Rightarrow> bool" where
  "is_register e = (case e of BfdRegisterSession b \<Rightarrow> True | _ \<Rightarrow> False)"

definition is_log :: "event \<Rightarrow> bool" where
  "is_log e = (case e of BfdLog lv f as \<Rightarrow> True | _ \<Rightarrow> False)"

text \<open>The calls made in one round of the Sessions loop, however the round ends.\<close>

definition body_events :: "body_result \<Rightarrow> event list" where
  "body_events r =
     (case r of Continue evs \<Rightarrow> evs | Registered evs bfd \<Rightarrow> evs | Exits evs st \<Rightarrow> evs)"

subsection \<open>A concrete environment\<close>

text \<open>
  One extension, SpecifyPorts, with index 0; the state of the gate is the list of the
  enabled indices. One host name resolves, to an IPv4 address; every allocation and every
  registration succeeds. The configuration file read is the argument.
\<close>

definition sample_env :: "config \<Rightarrow> nat list env" where
  "sample_env cfg =
     \<lparr>DEFAULT_MONITOR_PORT = 15243,
      BFD_EXT_MAX = 1,
      BFD_EXT_SPECIFYPORTS = 0,
      BFDDFLT_DETECTMULT = 3,
      BFDDFLT_REQUIREDMINRX = 100000,
      BFDDFLT_DESIREDMINTX = 100000,
      bfdExtDescribe = (\<lambda>idx. (''SpecifyPorts'', ''Specify source and destination ports'')),
      bfdExtEnable = (\<lambda>x name. if name = ''SpecifyPorts'' then (True, 0 # x) else (False, x)),
      bfdExtCheck = (\<lambda>x idx. idx \<in> set x),
      sscanf_u16 = (\<lambda>a. None),
      daemon_ok = True,
      config_read_file = (\<lambda>f. if f = ''bfdd.conf'' then Inr cfg
                                else Inl (f, 0, ''file I/O error'')),
      gethostbyname = (\<lambda>name. if name = ''192.0.2.1''
                                then Inr \<lparr>h_addrtype = 2, h_addr = 0xC0000201\<rparr>
                                else Inl ''Unknown host''),
      malloc_ok = (\<lambda>i. True),
      bfdRegisterSession = (\<lambda>regs bfd. True)\<rparr>"

definition no_fields :: session_setting where
  "no_fields =
     \<lparr>cfg_PeerAddress = None, cfg_PeerPort = None, cfg_LocalPort = None,
      cfg_DemandMode = None, cfg_DetectMult = None, cfg_RequiredMinRxInterval = None,
      cfg_DesiredMinTxInterval = None\<rparr>"

definition peer_only :: session_setting where
  "peer_only = no_fields\<lparr>cfg_PeerAddress := Some ''192.0.2.1''\<rparr>"

definition sessions_only :: "session_setting list \<Rightarrow> config" where
  "sessions_only sns = \<lparr>Extensions = None, Sessions = Some sns\<rparr>"

section \<open>The control packet codec\<close>

text \<open>
  Modelled from the spec: the Packet Codec (sections 4.1 and 6 of the specification), which
  no file under src holds. The fields and their order are those of the specification:
  version, diagnostic code, state (two bits), the six flags Poll, Final,
  ControlPlaneIndependent, AuthPresent, Demand and Multipoint, detect multiplier (eight
  bits), length (eight bits, the number of bytes of the packet) and five fields of 32 bits.
  The specification leaves three things open, fixed here as follows: version and diagnostic
  code share the first byte, three and five bits wide; the fields of 32 bits are in
  network byte order; the supported version is a parameter of \<open>Decode\<close>. With this layout
  the fixed-length packet has 24 bytes and no reserved bit.
\<close>

datatype session_state = AdminDown | Down | Init | Up

datatype codec_error = MalformedPacket

record packet =
  version :: "3 word"
  diag :: "5 word"
  state :: session_state
  poll :: bool
  final :: bool
  controlPlaneIndependent :: bool
  authPresent :: bool
  demand :: bool
  multipoint :: bool
  detectMultiplier :: "8 word"
  packetLength :: "8 word"
  localDiscriminator :: "32 word"
  remoteDiscriminator :: "32 word"
  desiredMinTx :: "32 word"
  requiredMinRx :: "32 word"
  requiredMinEchoRx :: "32 word"

text \<open>
  Modelled from the spec: the state is a two-bit enumeration, in the order the
  specification lists it; it takes the two high bits of the second byte.
\<close>

definition state_of_bits :: "8 word \<Rightarrow> session_state" where
  "state_of_bits b =
     (if bit b 7 then (if bit b 6 then Up else Init) else (if bit b 6 then Down else AdminDown))"

text \<open>Modelled from the spec: a flag is one bit of the second byte.\<close>

definition flag :: "bool \<Rightarrow> nat \<Rightarrow> 8 word" where
  "flag f n = (if f then push_bit n 1 else 0)"

text \<open>Modelled from the spec: the two bits of a state, the inverse of \<open>state_of_bits\<close>.\<close>

definition bits_of_state :: "session_state \<Rightarrow> 8 word" where
  "bits_of_state s = flag (s = Init \<or> s = Up) 7 OR flag (s = Down \<or> s = Up) 6"

text \<open>Modelled from the spec: a field of 32 bits, most significant byte first.\<close>

definition be32 :: "8 word \<Rightarrow> 8 word \<Rightarrow> 8 word \<Rightarrow> 8 word \<Rightarrow> 32 word" where
  "be32 a b c d = push_bit 24 (ucast a) OR push_bit 16 (ucast b) OR push_bit 8 (ucast c) OR ucast d"

text \<open>Modelled from the spec: the four bytes of a field of 32 bits, in the same order.\<close>

definition bytes32 :: "32 word \<Rightarrow> 8 word list" where
  "bytes32 w = [ucast (drop_bit 24 w), ucast (drop_bit 16 w), ucast (drop_bit 8 w), ucast w]"

text \<open>
  Modelled from the spec: \<open>Decode\<close> fails with \<open>MalformedPacket\<close> when the version is not the
  supported one or the length field differs from the number of bytes read; a byte sequence
  that is not of the fixed length is malformed as well. It accepts every other value.
\<close>

definition Decode :: "3 word \<Rightarrow> 8 word list \<Rightarrow> codec_error + packet" where
  "Decode v bs =
     (case bs of
        [b0, b1, b2, b3, l0, l1, l2, l3, r0, r1, r2, r3, t0, t1, t2, t3,
         q0, q1, q2, q3, e0, e1, e2, e3] \<Rightarrow>
          if ucast (drop_bit 5 b0) \<noteq> v then Inl MalformedPacket
          else if unat b3 \<noteq> length bs then Inl MalformedPacket
          else Inr \<lparr>version = ucast (drop_bit 5 b0),
                    diag = ucast b0,
                    state = state_of_bits b1,
                    poll = bit b1 5,
                    final = bit b1 4,
                    controlPlaneIndependent = bit b1 3,
                    authPresent = bit b1 2,
                    demand = bit b1 1,
                    multipoint = bit b1 0,
                    detectMultiplier = b2,
                    packetLength = b3,
                    localDiscriminator = be32 l0 l1 l2 l3,
                    remoteDiscriminator = be32 r0 r1 r2 r3,
                    desiredMinTx = be32 t0 t1 t2 t3,
                    requiredMinRx = be32 q0 q1 q2 q3,
                    requiredMinEchoRx = be32 e0 e1 e2 e3\<rparr>
      | _ \<Rightarrow> Inl MalformedPacket)"

text \<open>Modelled from the spec: \<open>Encode\<close> writes the fields in the same layout.\<close>

definition Encode :: "packet \<Rightarrow> 8 word list" where
  "Encode p =
     [push_bit 5 (ucast (version p)) OR ucast (diag p),
      bits_of_state (state p) OR flag (poll p) 5 OR flag (final p) 4
        OR flag (controlPlaneIndependent p) 3 OR flag (authPresent p) 2
        OR flag (demand p) 1 OR flag (multipoint p) 0,
      detectMultiplier p,
      packetLength p]
     @ bytes32 (localDiscriminator p) @ bytes32 (remoteDiscriminator p)
     @ bytes32 (desiredMinTx p) @ bytes32 (requiredMinRx p) @ bytes32 (requiredMinEchoRx p)"

section \<open>The two signal actions\<close>

text \<open>
  Modelled from the spec: the session entity (section 3 of the specification), as far as
  the two signal actions read or write it. No file under src holds the bodies of
  \<open>bfdStartPollSequence\<close> and \<open>bfdToggleAdminDown\<close>. \<open>conf\<close> is the record \<open>main\<close> registered,
  with the configured demand mode, detect multiplier and intervals; \<open>localState\<close>,
  \<open>localDiag\<close> and \<open>pollInProgress\<close> are the attributes of the same names.
\<close>

datatype diagnostic =
  NoDiagnostic | ControlDetectionTimeExpired | NeighborSignaledDown | AdministrativelyDown

record session =
  conf :: bfdSession
  localState :: session_state
  localDiag :: diagnostic
  pollInProgress :: bool

text \<open>
  Modelled from the spec: a manual poll (section 4.4) forces \<open>pollInProgress\<close> to true and
  changes no interval value.
\<close>

definition start_poll :: "session \<Rightarrow> session" where
  "start_poll s = s\<lparr>pollInProgress := True\<rparr>"

text \<open>
  Modelled from the spec: the two administrative rows of the transition table (section
  4.3). A request for admin-down takes any state to \<open>AdminDown\<close> with the diagnostic
  \<open>AdministrativelyDown\<close>; a request for admin-up takes \<open>AdminDown\<close> to \<open>Down\<close>.
\<close>

definition admin_down_requested :: "session \<Rightarrow> session" where
  "admin_down_requested s = s\<lparr>localState := AdminDown, localDiag := AdministrativelyDown\<rparr>"

definition admin_up_requested :: "session \<Rightarrow> session" where
  "admin_up_requested s = (if localState s = AdminDown then s\<lparr>localState := Down\<rparr> else s)"

text \<open>
  Modelled from the spec: toggling administrative-down on a session requests admin-up
  when the session is in \<open>AdminDown\<close> and admin-down otherwise.
\<close>

definition toggle_admin_down :: "session \<Rightarrow> session" where
  "toggle_admin_down s =
     (if localState s = AdminDown then admin_up_requested s else admin_down_requested s)"

text \<open>
  Modelled from the spec: what each action does to the sessions of the Registry (section
  6). The action for the first signal starts a manual poll on every demand-mode session,
  a session whose configured demand mode is on; the action for the second toggles
  administrative-down on every session.
\<close>

fun signal_action :: "actor \<Rightarrow> session list \<Rightarrow> session list" where
  "signal_action bfdStartPollSequence reg =
     map (\<lambda>s. if DemandMode (conf s) \<noteq> 0 then start_poll s else s) reg"
| "signal_action bfdToggleAdminDown reg = map toggle_admin_down reg"

text \<open>
  The actor a sequence of calls leaves installed for a signal: that of the last
  \<open>tpSetSignalActor\<close> call for the signal, if there is one.
\<close>

fun installed :: "event list \<Rightarrow> signal \<Rightarrow> actor option" where
  "installed [] sg = None"
| "installed (e # es) sg =
     (case installed es sg of
        Some a \<Rightarrow> Some a
      | None \<Rightarrow> (case e of TpSetSignalActor a s \<Rightarrow> if s = sg then Some a else None
                 | _ \<Rightarrow> None))"

text \<open>
  The delivery of a signal after a sequence of calls: the installed action runs on the
  sessions of the Registry; a signal with no installed action is \<open>None\<close>.
\<close>

definition deliver :: "event list \<Rightarrow> signal \<Rightarrow> session list \<Rightarrow> session list option" where
  "deliver evs sg reg =
     (case installed evs sg of None \<Rightarrow> None | Some a \<Rightarrow> Some (signal_action a reg))"

text \<open>Two sessions: one in \<open>Up\<close> with demand mode on, one in \<open>AdminDown\<close> with demand mode off.\<close>

definition demand_session :: session where
  "demand_session =
     \<lparr>conf = \<lparr>DemandMode = 1, DetectMult = 3, DesiredMinTxInterval = 100000,
               RequiredMinRxInterval = 100000, PeerAddr = 0xC0000201, PeerPort = 3784,
               LocalPort = 3784\<rparr>,
      localState = Up, localDiag = NoDiagnostic, pollInProgress = False\<rparr>"

definition plain_session :: session where
  "plain_session =
     \<lparr>conf = \<lparr>DemandMode = 0, DetectMult = 3, DesiredMinTxInterval = 100000,
               RequiredMinRxInterval = 100000, PeerAddr = 0xC0000202, PeerPort = 3784,
               LocalPort = 3784\<rparr>,
      localState = AdminDown, localDiag = AdministrativelyDown, pollInProgress = False\<rparr>"

section \<open>Properties of the startup\<close>

subsection \<open>The range checks\<close>

lemma hi16: "(0xffff0000 :: 32 word) = NOT (mask 16)"
  by (simp add: mask_eq_exp_minus_1)

lemma hi24: "(0xffffff00 :: 32 word) = NOT (mask 8)"
  by (simp add: mask_eq_exp_minus_1)

lemma and_not_mask_zero_iff:
  fixes p :: "32 word"
  shows "(p AND NOT (mask m) = 0) = (uint p < 2 ^ m)"
proof
  assume z: "p AND NOT (mask m) = 0"
  have "take_bit m p = p"
  proof (rule bit_word_eqI)
    fix n assume "n < LENGTH(32)"
    from z have "\<not> bit (p AND NOT (mask m)) n" by simp
    then show "bit (take_bit m p) n = bit p n"
      by (auto simp add: bit_simps dest: bit_imp_le_length)
  qed
  then have "uint p = take_bit m (uint p)"
    by (metis unsigned_take_bit_eq)
  then show "uint p < 2 ^ m"
    using take_bit_int_less_exp [of m "uint p"] by simp
next
  assume "uint p < 2 ^ m"
  then have "take_bit m (uint p) = uint p"
    by (simp add: take_bit_int_eq_self)
  then have t: "take_bit m p = p"
    by (metis unsigned_take_bit_eq word_uint_eq_iff)
  show "p AND NOT (mask m) = 0"
  proof (rule bit_word_eqI)
    fix n assume "n < LENGTH(32)"
    have "bit p n \<Longrightarrow> n < m"
      using t by (metis bit_take_bit_iff)
    then show "bit (p AND NOT (mask m)) n = bit (0 :: 32 word) n"
      by (auto simp add: bit_simps)
  qed
qed

lemma uint_small_iff_sint:
  fixes p :: "32 word"
  assumes "m \<le> 31"
  shows "(uint p < 2 ^ m) = (0 \<le> sint p \<and> sint p < 2 ^ m)"
proof -
  have le: "(2 :: int) ^ m \<le> 2 ^ 31"
    using assms power_increasing [of m 31 "2::int"] by simp
  show ?thesis
  proof
    assume u: "uint p < 2 ^ m"
    have "sint p = signed_take_bit 31 (uint p)"
      by (simp add: sint_uint)
    also have "\<dots> = uint p"
      using u le signed_take_bit_int_eq_self [of 31 "uint p"] uint_ge_0 [of p] by linarith
    finally show "0 \<le> sint p \<and> sint p < 2 ^ m"
      using u by simp
  next
    assume s: "0 \<le> sint p \<and> sint p < 2 ^ m"
    have "uint p = take_bit 32 (sint p)"
      by (simp add: uint_sint)
    also have "\<dots> = sint p"
      using s le by (simp add: take_bit_int_eq_self)
    finally show "uint p < 2 ^ m"
      using s by simp
  qed
qed

lemma port_mask_iff: "((p :: 32 word) AND 0xffff0000 = 0) = port_in_range p"
  using and_not_mask_zero_iff [of p 16] uint_small_iff_sint [of 16 p]
  unfolding hi16 port_in_range_def by auto

lemma byte_mask_iff: "((d :: 32 word) AND 0xffffff00 = 0) = (0 \<le> sint d \<and> sint d \<le> 255)"
  using and_not_mask_zero_iff [of d 8] uint_small_iff_sint [of 8 d]
  unfolding hi24 by auto

subsection \<open>Descriptors that are skipped\<close>

lemma sessions_loop_Continue:
  "session_body env x regs i sn = Continue evs \<Longrightarrow>
   sessions_loop env x regs i (sn # sns) = prepend evs (sessions_loop env x regs (Suc i) sns)"
  by simp

text \<open>
  C8. A session descriptor without a peer address is skipped with a warning: the only call
  made for it is one log line at warning level, no record is registered, the loop goes on
  with the remaining descriptors and the same registered records, and nothing exits.
\<close>

theorem missing_PeerAddress_skipped:
  assumes "cfg_PeerAddress sn = None"
  shows "sessions_loop env x regs i (sn # sns) =
           prepend [BfdLog LOG_WARNING ''Session %d missing PeerAddress - Skipping Session!\<newline>''
                      [I (int i)]]
             (sessions_loop env x regs (Suc i) sns)"
  using assms by (simp add: session_body_def parse_session_def)

theorem missing_PeerAddress_skipped_witness:
  "cfg_PeerAddress no_fields = None \<and>
   snd (sessions_loop (sample_env (sessions_only [])) [] [] 0 [no_fields, peer_only])
     = Inr [\<lparr>DemandMode = 0, DetectMult = 3, DesiredMinTxInterval = 100000,
             RequiredMinRxInterval = 100000, PeerAddr = 0xC0000201, PeerPort = 3784,
             LocalPort = 3784\<rparr>]"
  using missing_PeerAddress_skipped [of no_fields "sample_env (sessions_only [])" "[]" "[]" 0 "[peer_only]"]
  by (simp add: no_fields_def peer_only_def sample_env_def session_body_def parse_session_def
    lookup_PeerPort_def lookup_LocalPort_def lookup_DetectMult_def create_session_def
    make_session_def prepend_def AF_INET_def)

lemma lookup_PeerPort_out_of_range:
  "cfg_PeerPort sn = Some p \<Longrightarrow> \<not> port_in_range p \<Longrightarrow>
   lookup_PeerPort env x i sn =
     Inl [BfdLog LOG_WARNING ''Session %d PeerPort out of range: %d - Skipping Session!\<newline>''
            [I (int i), I (sint p)]]"
  by (simp add: lookup_PeerPort_def port_mask_iff)

lemma lookup_LocalPort_out_of_range:
  "cfg_LocalPort sn = Some p \<Longrightarrow> \<not> port_in_range p \<Longrightarrow>
   lookup_LocalPort env x i sn =
     Inl [BfdLog LOG_WARNING ''Session %d LocalPort out of range: %d - Skipping Session!\<newline>''
            [I (int i), I (sint p)]]"
  by (simp add: lookup_LocalPort_def port_mask_iff)

lemma lookup_PeerPort_warnings:
  "lookup_PeerPort env x i sn = Inl evs \<Longrightarrow> evs \<noteq> [] \<and> (\<forall>e \<in> set evs. is_warning e)"
  by (auto simp add: lookup_PeerPort_def is_warning_def split: option.splits if_splits)

lemma lookup_LocalPort_warnings:
  "lookup_LocalPort env x i sn = Inl evs \<Longrightarrow> evs \<noteq> [] \<and> (\<forall>e \<in> set evs. is_warning e)"
  by (auto simp add: lookup_LocalPort_def is_warning_def split: option.splits if_splits)

lemma lookup_PeerPort_Inr:
  "lookup_PeerPort env x i sn = Inr pp \<Longrightarrow>
     (case cfg_PeerPort sn of None \<Rightarrow> pp = 3784
      | Some p \<Rightarrow> pp = p \<and> port_in_range p \<and> bfdExtCheck env x (BFD_EXT_SPECIFYPORTS env))"
  by (auto simp add: lookup_PeerPort_def port_mask_iff split: option.splits if_splits)

lemma lookup_LocalPort_Inr:
  "lookup_LocalPort env x i sn = Inr lp \<Longrightarrow>
     (case cfg_LocalPort sn of None \<Rightarrow> lp = 3784
      | Some p \<Rightarrow> lp = p \<and> port_in_range p \<and> bfdExtCheck env x (BFD_EXT_SPECIFYPORTS env))"
  by (auto simp add: lookup_LocalPort_def port_mask_iff split: option.splits if_splits)

text \<open>A descriptor that stops at one of the two port lookups, or before, is skipped with warnings.\<close>

lemma skipped_at_ports:
  assumes "cfg_PeerAddress sn = None \<or> isl (lookup_PeerPort env x i sn)
             \<or> isl (lookup_LocalPort env x i sn)"
  shows "\<exists>evs. session_body env x regs i sn = Continue evs \<and> evs \<noteq> []
           \<and> (\<forall>e \<in> set evs. is_warning e)"
proof (cases "cfg_PeerAddress sn")
  case None
  then show ?thesis
    by (simp add: session_body_def parse_session_def is_warning_def)
next
  case (Some a)
  show ?thesis
  proof (cases "lookup_PeerPort env x i sn")
    case (Inl evs)
    with Some lookup_PeerPort_warnings [OF Inl] show ?thesis
      by (simp add: session_body_def parse_session_def)
  next
    case (Inr pp)
    with Some assms obtain evs where l: "lookup_LocalPort env x i sn = Inl evs"
      by (cases "lookup_LocalPort env x i sn") auto
    with Some Inr lookup_LocalPort_warnings [OF l] show ?thesis
      by (simp add: session_body_def parse_session_def)
  qed
qed

text \<open>
  C9. A session descriptor whose configured peer port or local port lies outside 0 to 65535
  is skipped, whatever the extension gate answers: nothing but warnings is logged for it
  and the loop goes on with the next descriptor. The range of a port is checked before
  the gate is asked about it: the lookup of an out-of-range port ends with the
  out-of-range warning for every state of the gate.
\<close>

theorem port_out_of_range_skipped:
  assumes "(\<exists>p. cfg_PeerPort sn = Some p \<and> \<not> port_in_range p)
             \<or> (\<exists>p. cfg_LocalPort sn = Some p \<and> \<not> port_in_range p)"
  shows "(\<exists>evs. session_body env x regs i sn = Continue evs \<and> evs \<noteq> []
            \<and> (\<forall>e \<in> set evs. is_warning e)
            \<and> sessions_loop env x regs i (sn # sns)
                = prepend evs (sessions_loop env x regs (Suc i) sns))
         \<and> (\<forall>p. cfg_PeerPort sn = Some p \<and> \<not> port_in_range p \<longrightarrow>
               lookup_PeerPort env x i sn =
                 Inl [BfdLog LOG_WARNING
                        ''Session %d PeerPort out of range: %d - Skipping Session!\<newline>''
                        [I (int i), I (sint p)]])
         \<and> (\<forall>p. cfg_LocalPort sn = Some p \<and> \<not> port_in_range p \<longrightarrow>
               lookup_LocalPort env x i sn =
                 Inl [BfdLog LOG_WARNING
                        ''Session %d LocalPort out of range: %d - Skipping Session!\<newline>''
                        [I (int i), I (sint p)]])"
proof -
  from assms have "isl (lookup_PeerPort env x i sn) \<or> isl (lookup_LocalPort env x i sn)"
    by (auto simp add: lookup_PeerPort_out_of_range lookup_LocalPort_out_of_range)
  then obtain evs where "session_body env x regs i sn = Continue evs" "evs \<noteq> []"
    "\<forall>e \<in> set evs. is_warning e"
    using skipped_at_ports [of sn env x i regs] by blast
  then show ?thesis
    by (auto simp add: lookup_PeerPort_out_of_range lookup_LocalPort_out_of_range)
qed

theorem port_out_of_range_skipped_witness:
  "\<not> port_in_range 70000 \<and> \<not> port_in_range (- 1)
   \<and> bfdExtCheck (sample_env (sessions_only [])) [0] (BFD_EXT_SPECIFYPORTS (sample_env (sessions_only [])))
   \<and> sessions_loop (sample_env (sessions_only [])) [0] [] 0
       [peer_only\<lparr>cfg_PeerPort := Some 70000\<rparr>, peer_only\<lparr>cfg_LocalPort := Some (- 1)\<rparr>]
     = ([BfdLog LOG_WARNING ''Session %d PeerPort out of range: %d - Skipping Session!\<newline>''
           [I 0, I 70000],
         BfdLog LOG_WARNING ''Session %d LocalPort out of range: %d - Skipping Session!\<newline>''
           [I 1, I (- 1)]], Inr [])"
  using port_out_of_range_skipped [of "peer_only\<lparr>cfg_PeerPort := Some 70000\<rparr>"
      "sample_env (sessions_only [])" "[0]" "[]" 0 "[peer_only\<lparr>cfg_LocalPort := Some (- 1)\<rparr>]"]
  by (simp add: port_in_range_def no_fields_def peer_only_def sample_env_def session_body_def
    parse_session_def lookup_PeerPort_def lookup_LocalPort_def prepend_def)

text \<open>
  C1, as stated, does not hold: a descriptor that gives a peer port while SpecifyPorts is
  not enabled does not end startup. The run below reaches the event loop.
\<close>

theorem port_without_capability_counterexample:
  "cfg_PeerPort (peer_only\<lparr>cfg_PeerPort := Some 4000\<rparr>) = Some 4000
   \<and> main (sample_env (sessions_only [peer_only\<lparr>cfg_PeerPort := Some 4000\<rparr>])) []
       [Opt_c ''bfdd.conf'', Opt_d]
     = ([BfdLogInit, Srandom, TpInitTimers,
         TpSetSignalActor bfdStartPollSequence SIGUSR1,
         TpSetSignalActor bfdToggleAdminDown SIGUSR2, ConfigInit,
         BfdLog LOG_WARNING ''Invalid remote port: %d - Skipping Session!\<newline>'' [I 4000],
         BfdLog LOG_WARNING ''Did you forget to enable the SpecifyPorts extension?\<newline>'' [],
         ConfigDestroy, BfdMonitorSetupServer 15243, TpDoEventLoop], EventLoop)"
  by (simp add: main_def init_cmdline_def run_config_def parse_extensions_def
    parse_sessions_def sessions_only_def no_fields_def peer_only_def sample_env_def
    session_body_def parse_session_def lookup_PeerPort_def prepend_def signal_actors_def)

text \<open>
  C1, amended. A session descriptor that gives a peer port or a local port while the
  SpecifyPorts extension is not enabled is skipped with a warning: nothing but warnings is
  logged for it, no record is registered, and the loop goes on with the next descriptor.
\<close>

theorem port_without_capability_skipped:
  assumes "cfg_PeerPort sn \<noteq> None \<or> cfg_LocalPort sn \<noteq> None"
    and "\<not> bfdExtCheck env x (BFD_EXT_SPECIFYPORTS env)"
  shows "\<exists>evs. session_body env x regs i sn = Continue evs \<and> evs \<noteq> []
           \<and> (\<forall>e \<in> set evs. is_warning e)
           \<and> sessions_loop env x regs i (sn # sns)
               = prepend evs (sessions_loop env x regs (Suc i) sns)"
proof -
  have "isl (lookup_PeerPort env x i sn) \<or> isl (lookup_LocalPort env x i sn)"
  proof (rule ccontr)
    assume "\<not> ?thesis"
    then obtain pp lp where "lookup_PeerPort env x i sn = Inr pp"
      "lookup_LocalPort env x i sn = Inr lp"
      by (cases "lookup_PeerPort env x i sn"; cases "lookup_LocalPort env x i sn") auto
    with assms lookup_PeerPort_Inr [of env x i sn pp] lookup_LocalPort_Inr [of env x i sn lp]
    show False by (auto split: option.splits)
  qed
  then obtain evs where "session_body env x regs i sn = Continue evs" "evs \<noteq> []"
    "\<forall>e \<in> set evs. is_warning e"
    using skipped_at_ports [of sn env x i regs] by blast
  then show ?thesis by auto
qed

theorem port_without_capability_skipped_witness:
  "cfg_LocalPort (peer_only\<lparr>cfg_LocalPort := Some 4000\<rparr>) \<noteq> None
   \<and> \<not> bfdExtCheck (sample_env (sessions_only [])) [] (BFD_EXT_SPECIFYPORTS (sample_env (sessions_only [])))
   \<and> sessions_loop (sample_env (sessions_only [])) [] [] 0
       [peer_only\<lparr>cfg_LocalPort := Some 4000\<rparr>, peer_only]
     = ([BfdLog LOG_WARNING ''Invalid local port: %d - Skipping Session!\<newline>'' [I 4000],
         BfdLog LOG_WARNING ''Did you forget to enable the SpecifyPorts extension?\<newline>'' [],
         notice_line 1 \<lparr>connectaddr = ''192.0.2.1'', peerPort = 3784, localport = 3784,
           demandMode = 0, detectMult = 3, reqMinRx = 100000, desMinTx = 100000\<rparr>,
         BfdLog LOG_INFO ''Creating initial session with %s (%s)\<newline>''
           [S ''192.0.2.1'', A 0xC0000201],
         BfdRegisterSession \<lparr>DemandMode = 0, DetectMult = 3, DesiredMinTxInterval = 100000,
           RequiredMinRxInterval = 100000, PeerAddr = 0xC0000201, PeerPort = 3784,
           LocalPort = 3784\<rparr>],
        Inr [\<lparr>DemandMode = 0, DetectMult = 3, DesiredMinTxInterval = 100000,
           RequiredMinRxInterval = 100000, PeerAddr = 0xC0000201, PeerPort = 3784,
           LocalPort = 3784\<rparr>])"
  using port_without_capability_skipped [of "peer_only\<lparr>cfg_LocalPort := Some 4000\<rparr>"
      "sample_env (sessions_only [])" "[]" "[]" 0 "[peer_only]"]
  by (simp add: no_fields_def peer_only_def sample_env_def session_body_def
    parse_session_def lookup_PeerPort_def lookup_LocalPort_def lookup_DetectMult_def
    create_session_def make_session_def AF_INET_def prepend_def)

subsection \<open>The detect multiplier\<close>

lemma lookup_DetectMult_in_range:
  "cfg_DetectMult sn = Some d \<Longrightarrow> 0 \<le> sint d \<and> sint d \<le> 255 \<Longrightarrow>
   lookup_DetectMult env i lp sn = Inr d"
  by (simp add: lookup_DetectMult_def byte_mask_iff)

lemma lookup_DetectMult_out_of_range:
  "cfg_DetectMult sn = Some d \<Longrightarrow> \<not> (0 \<le> sint d \<and> sint d \<le> 255) \<Longrightarrow>
   lookup_DetectMult env i lp sn =
     Inl [BfdLog LOG_ERR ''Session %d DetectMult out of range: %d - Skipping Session!\<newline>''
            [I (int i), I (sint lp)]]"
  by (simp add: lookup_DetectMult_def byte_mask_iff)

lemma parse_session_Inr:
  assumes "parse_session env x i sn = Inr l"
  shows "cfg_PeerAddress sn = Some (connectaddr l)
         \<and> lookup_PeerPort env x i sn = Inr (peerPort l)
         \<and> lookup_LocalPort env x i sn = Inr (localport l)
         \<and> lookup_DetectMult env i (localport l) sn = Inr (detectMult l)
         \<and> demandMode l = (case cfg_DemandMode sn of Some d \<Rightarrow> d | None \<Rightarrow> 0)
         \<and> reqMinRx l = (case cfg_RequiredMinRxInterval sn of
                            Some r \<Rightarrow> r | None \<Rightarrow> BFDDFLT_REQUIREDMINRX env)
         \<and> desMinTx l = (case cfg_DesiredMinTxInterval sn of
                            Some t \<Rightarrow> t | None \<Rightarrow> BFDDFLT_DESIREDMINTX env)"
  using assms unfolding parse_session_def
  by (auto split: option.splits sum.splits)

lemma parse_session_Inl_Continue:
  "parse_session env x i sn = Inl evs \<Longrightarrow> session_body env x regs i sn = Continue evs"
  by (simp add: session_body_def)

text \<open>
  C2, as stated, does not hold at the lower end of the range: a configured detect
  multiplier of 0 is accepted, and a record with \<open>DetectMult = 0\<close> is registered.
\<close>

theorem detect_mult_zero_counterexample:
  "\<not> 1 \<le> sint (0 :: int32)
   \<and> sessions_loop (sample_env (sessions_only [])) [] [] 0 [peer_only\<lparr>cfg_DetectMult := Some 0\<rparr>]
     = ([notice_line 0 \<lparr>connectaddr = ''192.0.2.1'', peerPort = 3784, localport = 3784,
           demandMode = 0, detectMult = 0, reqMinRx = 100000, desMinTx = 100000\<rparr>,
         BfdLog LOG_INFO ''Creating initial session with %s (%s)\<newline>''
           [S ''192.0.2.1'', A 0xC0000201],
         BfdRegisterSession \<lparr>DemandMode = 0, DetectMult = 0, DesiredMinTxInterval = 100000,
           RequiredMinRxInterval = 100000, PeerAddr = 0xC0000201, PeerPort = 3784,
           LocalPort = 3784\<rparr>],
        Inr [\<lparr>DemandMode = 0, DetectMult = 0, DesiredMinTxInterval = 100000,
           RequiredMinRxInterval = 100000, PeerAddr = 0xC0000201, PeerPort = 3784,
           LocalPort = 3784\<rparr>])"
  by (simp add: no_fields_def peer_only_def sample_env_def session_body_def
    parse_session_def lookup_PeerPort_def lookup_LocalPort_def lookup_DetectMult_def
    create_session_def make_session_def AF_INET_def prepend_def)

text \<open>
  C2, amended. A configured detect multiplier is accepted only if it lies in the range
  0 to 255, the values of eight bits; a value outside that range causes the descriptor to
  be skipped, and a value inside it passes the check of the detect multiplier.
\<close>

theorem detect_mult_range:
  assumes "cfg_DetectMult sn = Some d"
  shows "(\<forall>l. parse_session env x i sn = Inr l \<longrightarrow>
            0 \<le> sint d \<and> sint d \<le> 255 \<and> detectMult l = d)
         \<and> (\<not> (0 \<le> sint d \<and> sint d \<le> 255) \<longrightarrow>
              (\<exists>evs. session_body env x regs i sn = Continue evs
                 \<and> sessions_loop env x regs i (sn # sns)
                     = prepend evs (sessions_loop env x regs (Suc i) sns)))
         \<and> (0 \<le> sint d \<and> sint d \<le> 255 \<longrightarrow> lookup_DetectMult env i lp sn = Inr d)"
proof (intro conjI allI impI)
  fix l assume p: "parse_session env x i sn = Inr l"
  have dm: "lookup_DetectMult env i (localport l) sn = Inr (detectMult l)"
    using parse_session_Inr [OF p] by simp
  show "0 \<le> sint d"
    using dm assms lookup_DetectMult_out_of_range [of sn d env i "localport l"] by auto
  show "sint d \<le> 255"
    using dm assms lookup_DetectMult_out_of_range [of sn d env i "localport l"] by auto
  have "0 \<le> sint d \<and> sint d \<le> 255"
    using dm assms lookup_DetectMult_out_of_range [of sn d env i "localport l"] by auto
  then show "detectMult l = d"
    using dm assms lookup_DetectMult_in_range [of sn d env i "localport l"] by simp
next
  assume out: "\<not> (0 \<le> sint d \<and> sint d \<le> 255)"
  have "\<exists>evs. parse_session env x i sn = Inl evs"
  proof (cases "parse_session env x i sn")
    case (Inl evs)
    then show ?thesis by blast
  next
    case (Inr l)
    then have "lookup_DetectMult env i (localport l) sn = Inr (detectMult l)"
      using parse_session_Inr [of env x i sn l] by simp
    with assms out lookup_DetectMult_out_of_range [of sn d env i "localport l"]
    show ?thesis by simp
  qed
  then obtain evs where "session_body env x regs i sn = Continue evs"
    using parse_session_Inl_Continue [of env x i sn] by blast
  then show "\<exists>evs. session_body env x regs i sn = Continue evs
      \<and> sessions_loop env x regs i (sn # sns)
          = prepend evs (sessions_loop env x regs (Suc i) sns)"
    by simp
next
  assume "0 \<le> sint d \<and> sint d \<le> 255"
  with assms show "lookup_DetectMult env i lp sn = Inr d"
    by (rule lookup_DetectMult_in_range)
qed

theorem detect_mult_range_witness:
  "cfg_DetectMult (peer_only\<lparr>cfg_DetectMult := Some 256\<rparr>) = Some 256
   \<and> \<not> (0 \<le> sint (256 :: int32) \<and> sint (256 :: int32) \<le> 255)
   \<and> sessions_loop (sample_env (sessions_only [])) [] [] 0
       [peer_only\<lparr>cfg_DetectMult := Some 256\<rparr>]
     = ([BfdLog LOG_ERR ''Session %d DetectMult out of range: %d - Skipping Session!\<newline>''
           [I 0, I 3784]], Inr [])
   \<and> parse_session (sample_env (sessions_only [])) [] 0 (peer_only\<lparr>cfg_DetectMult := Some 255\<rparr>)
     = Inr \<lparr>connectaddr = ''192.0.2.1'', peerPort = 3784, localport = 3784,
           demandMode = 0, detectMult = 255, reqMinRx = 100000, desMinTx = 100000\<rparr>"
  using detect_mult_range [of "peer_only\<lparr>cfg_DetectMult := Some 256\<rparr>" 256
      "sample_env (sessions_only [])" "[]" 0 "[]" "[]" 3784]
    detect_mult_range [of "peer_only\<lparr>cfg_DetectMult := Some 255\<rparr>" 255
      "sample_env (sessions_only [])" "[]" 0 "[]" "[]" 3784]
  by (simp add: no_fields_def peer_only_def sample_env_def session_body_def
    parse_session_def lookup_PeerPort_def lookup_LocalPort_def lookup_DetectMult_def
    prepend_def)

subsection \<open>The calls each stage makes\<close>

lemma fst_prepend [simp]: "fst (prepend evs p) = evs @ fst p"
  by (simp add: prepend_def)

lemma snd_prepend [simp]: "snd (prepend evs p) = snd p"
  by (simp add: prepend_def)

lemma bfddUsage_events: "e \<in> set (bfddUsage env) \<Longrightarrow> \<exists>f as. e = Fprintf_stderr f as"
  by (auto simp add: bfddUsage_def)

lemma getopt_loop_events:
  "e \<in> set (fst (getopt_loop env opts cmd x)) \<Longrightarrow> e = BfdLogMore \<or> (\<exists>f as. e = Fprintf_stderr f as)"
proof (induction env opts cmd x rule: getopt_loop.induct)
  case (4 env a os cmd x)
  then show ?case
    by (cases "sscanf_u16 env a") (auto dest: bfddUsage_events)
next
  case (6 env a os cmd x)
  then show ?case
    by (cases "fst (bfdExtEnable env x a)") (auto dest: bfddUsage_events)
qed (auto dest: bfddUsage_events)

lemma getopt_loop_Inl:
  "snd (getopt_loop env opts cmd x) = Inl st \<Longrightarrow>
   st = 1 \<and> (\<exists>pre. fst (getopt_loop env opts cmd x) = pre @ bfddUsage env)"
proof (induction env opts cmd x rule: getopt_loop.induct)
  case (4 env a os cmd x)
  then show ?case
    by (cases "sscanf_u16 env a") (auto intro: exI [of _ "[e]" for e])
next
  case (5 env os cmd x)
  then obtain pre where "fst (getopt_loop env os cmd x) = pre @ bfddUsage env" "st = 1"
    by auto
  then show ?case by (auto intro: exI [of _ "BfdLogMore # pre"])
next
  case (6 env a os cmd x)
  then show ?case
    by (cases "fst (bfdExtEnable env x a)") (auto intro: exI [of _ "[e]" for e])
next
  case (7 env os cmd x)
  then show ?case by (auto intro: exI [of _ "[]"])
qed auto

lemma getopt_loop_unknown:
  "\<forall>x. \<not> fst (bfdExtEnable env x a) \<Longrightarrow> Opt_x a \<in> set opts \<Longrightarrow>
   isl (snd (getopt_loop env opts cmd x))"
proof (induction env opts cmd x rule: getopt_loop.induct)
  case (4 env b os cmd x)
  then show ?case by (cases "sscanf_u16 env b") auto
qed auto

lemma extensions_loop_events:
  "e \<in> set (fst (extensions_loop env x i exts)) \<Longrightarrow> is_warning e"
  by (induction env x i exts rule: extensions_loop.induct)
     (auto simp add: is_warning_def split: option.splits if_splits)

lemma create_session_events:
  "e \<in> set (body_events (create_session env regs i l)) \<Longrightarrow> is_log e \<or> is_register e"
  by (auto simp add: create_session_def body_events_def is_log_def is_register_def
        notice_line_def split: sum.splits if_splits)

lemma parse_session_events:
  "parse_session env x i sn = Inl evs \<Longrightarrow> e \<in> set evs \<Longrightarrow> is_log e"
  by (auto simp add: parse_session_def lookup_PeerPort_def lookup_LocalPort_def
        lookup_DetectMult_def is_log_def split: option.splits sum.splits if_splits)

lemma session_body_events:
  "e \<in> set (body_events (session_body env x regs i sn)) \<Longrightarrow> is_log e \<or> is_register e"
proof (cases "parse_session env x i sn")
  case (Inl evs)
  assume "e \<in> set (body_events (session_body env x regs i sn))"
  with Inl parse_session_events [OF Inl] show ?thesis
    by (simp add: session_body_def body_events_def)
next
  case (Inr l)
  assume "e \<in> set (body_events (session_body env x regs i sn))"
  with Inr create_session_events [of e env regs i l] show ?thesis
    by (simp add: session_body_def)
qed

lemma sessions_loop_events:
  "e \<in> set (fst (sessions_loop env x regs i sns)) \<Longrightarrow> is_log e \<or> is_register e"
proof (induction sns arbitrary: regs i)
  case Nil
  then show ?case by simp
next
  case (Cons sn sns)
  show ?case
  proof (cases "session_body env x regs i sn")
    case (Continue evs)
    with Cons.prems have "e \<in> set evs \<or> e \<in> set (fst (sessions_loop env x regs (Suc i) sns))"
      by simp
    with Cons.IH session_body_events [of e env x regs i sn] Continue show ?thesis
      by (auto simp add: body_events_def)
  next
    case (Registered evs bfd)
    with Cons.prems
    have "e \<in> set evs \<or> e \<in> set (fst (sessions_loop env x (regs @ [bfd]) (Suc i) sns))"
      by simp
    with Cons.IH session_body_events [of e env x regs i sn] Registered show ?thesis
      by (auto simp add: body_events_def)
  next
    case (Exits evs st)
    with Cons.prems session_body_events [of e env x regs i sn] show ?thesis
      by (auto simp add: body_events_def)
  qed
qed

subsection \<open>How main ends\<close>

lemma session_body_exit_status:
  "session_body env x regs i sn = Exits evs st \<Longrightarrow> st = 1"
  by (auto simp add: session_body_def create_session_def split: sum.splits if_splits)

lemma sessions_loop_exit_status:
  "snd (sessions_loop env x regs i sns) = Inl st \<Longrightarrow> st = 1"
proof (induction sns arbitrary: regs i)
  case Nil
  then show ?case by simp
next
  case (Cons sn sns)
  then show ?case
    by (cases "session_body env x regs i sn") (auto dest: session_body_exit_status)
qed

lemma run_config_snd:
  "snd (run_config env x cmd f) =
     (case config_read_file env f of
        Inl err \<Rightarrow> Exit 1
      | Inr cfg \<Rightarrow>
          (case snd (parse_sessions env (snd (parse_extensions env x cfg)) cfg) of
             Inl st \<Rightarrow> Exit st | Inr regs \<Rightarrow> EventLoop))"
  by (auto simp add: run_config_def split: sum.splits prod.splits)

lemma run_config_events:
  "e \<in> set (fst (run_config env x cmd f)) \<Longrightarrow>
   is_log e \<or> is_register e \<or> e = ConfigInit \<or> e = ConfigDestroy
     \<or> e = BfdMonitorSetupServer (monitor_port cmd) \<or> e = TpDoEventLoop"
proof (cases "config_read_file env f")
  case (Inl err)
  assume "e \<in> set (fst (run_config env x cmd f))"
  with Inl show ?thesis by (auto simp add: run_config_def is_log_def)
next
  case (Inr cfg)
  assume e: "e \<in> set (fst (run_config env x cmd f))"
  have ext: "e \<in> set (fst (parse_extensions env x cfg)) \<Longrightarrow> is_log e"
    using extensions_loop_events [of e env x 0]
    by (auto simp add: parse_extensions_def is_warning_def is_log_def
          split: option.splits event.splits log_level.splits)
  have ses: "e \<in> set (fst (parse_sessions env y cfg)) \<Longrightarrow> is_log e \<or> is_register e" for y
    using sessions_loop_events [of e env y "[]" 0]
    by (auto simp add: parse_sessions_def split: option.splits)
  from e Inr ext ses [of "snd (parse_extensions env x cfg)"] show ?thesis
    by (auto simp add: run_config_def split: prod.splits sum.splits)
qed

text \<open>The three ways \<open>main\<close> goes on after the command line.\<close>

lemma main_getopt_exit:
  "snd (getopt_loop env opts (init_cmdline env) x0) = Inl st \<Longrightarrow>
   main env x0 opts = (BfdLogInit # fst (getopt_loop env opts (init_cmdline env) x0), Exit st)"
  by (cases "getopt_loop env opts (init_cmdline env) x0") (simp add: main_def)

lemma main_no_config:
  "snd (getopt_loop env opts (init_cmdline env) x0) = Inr (cmd, x) \<Longrightarrow> configFile cmd = None \<Longrightarrow>
   main env x0 opts =
     (BfdLogInit # fst (getopt_loop env opts (init_cmdline env) x0) @ bfddUsage env, Exit 1)"
  by (cases "getopt_loop env opts (init_cmdline env) x0") (simp add: main_def)

lemma main_no_daemon:
  "snd (getopt_loop env opts (init_cmdline env) x0) = Inr (cmd, x) \<Longrightarrow> configFile cmd = Some f \<Longrightarrow>
   daemon_mode cmd \<and> \<not> daemon_ok env \<Longrightarrow>
   main env x0 opts =
     (BfdLogInit # fst (getopt_loop env opts (init_cmdline env) x0)
        @ [Daemon 1 0, BfdLog LOG_ERR ''Unable to daemonize!'' []], Exit 1)"
  by (cases "getopt_loop env opts (init_cmdline env) x0") (simp add: main_def)

lemma main_run_config:
  "snd (getopt_loop env opts (init_cmdline env) x0) = Inr (cmd, x) \<Longrightarrow> configFile cmd = Some f \<Longrightarrow>
   \<not> (daemon_mode cmd \<and> \<not> daemon_ok env) \<Longrightarrow>
   main env x0 opts =
     prepend (BfdLogInit # fst (getopt_loop env opts (init_cmdline env) x0)
                @ (if daemon_mode cmd then [Daemon 1 0] else [])
                @ [Srandom, TpInitTimers] @ signal_actors)
       (run_config env x cmd f)"
  by (cases "getopt_loop env opts (init_cmdline env) x0") (auto simp add: main_def)

lemma main_Exit_status: "snd (main env x0 opts) = Exit st \<Longrightarrow> st = 1"
proof (cases "snd (getopt_loop env opts (init_cmdline env) x0)")
  case (Inl s)
  assume "snd (main env x0 opts) = Exit st"
  with Inl getopt_loop_Inl [OF Inl] main_getopt_exit [OF Inl] show ?thesis by simp
next
  case (Inr p)
  assume m: "snd (main env x0 opts) = Exit st"
  obtain cmd x where p: "p = (cmd, x)" by (cases p)
  show ?thesis
  proof (cases "configFile cmd")
    case None
    with m main_no_config [of env opts x0 cmd x] Inr p show ?thesis by simp
  next
    case (Some f)
    show ?thesis
    proof (cases "daemon_mode cmd \<and> \<not> daemon_ok env")
      case True
      with m main_no_daemon [of env opts x0 cmd x f] Inr p Some show ?thesis by simp
    next
      case False
      with m main_run_config [of env opts x0 cmd x f] Inr p Some
      have "snd (run_config env x cmd f) = Exit st" by simp
      then show ?thesis
        by (auto simp add: run_config_snd parse_sessions_def
              split: sum.splits option.splits dest: sessions_loop_exit_status)
    qed
  qed
qed

subsection \<open>Unknown extension names\<close>

text \<open>
  C10. An extension name that \<open>bfdExtEnable\<close> does not accept is handled by its source.
  Given with \<open>-x\<close> it ends the process: the message and the usage text are printed and
  the status is 1; a command line that holds such an option anywhere ends \<open>main\<close> with
  status 1 and the usage text as the last output. Given in the Extensions list of the
  configuration file by an entry that switches it on, it costs one warning and the loop
  goes on with the next entry; the loop over the Extensions list has no exit.
\<close>

theorem unknown_extension_by_source:
  "(\<not> fst (bfdExtEnable env x a) \<longrightarrow>
      getopt_loop env (Opt_x a # os) cmd x
        = (Fprintf_stderr ''Invalid extension: %s\<newline>'' [S a] # bfddUsage env, Inl 1))
   \<and> ((\<forall>y. \<not> fst (bfdExtEnable env y a)) \<and> Opt_x a \<in> set opts \<longrightarrow>
        snd (main env x0 opts) = Exit 1
        \<and> (\<exists>pre. fst (main env x0 opts) = pre @ bfddUsage env))
   \<and> (ext_name ext = Some a \<and> ext_bool ext \<and> \<not> fst (bfdExtEnable env x a) \<longrightarrow>
        extensions_loop env x i (ext # exts)
          = prepend
              [BfdLog LOG_WARNING
                 ''Attempt to enable unknown extension [%s] - ignoring\<newline>'' [S a]]
              (extensions_loop env (snd (bfdExtEnable env x a)) (Suc i) exts))"
proof -
  have cmdline: "\<not> fst (bfdExtEnable env x a) \<longrightarrow>
      getopt_loop env (Opt_x a # os) cmd x
        = (Fprintf_stderr ''Invalid extension: %s\<newline>'' [S a] # bfddUsage env, Inl 1)"
    by simp
  have whole: "(\<forall>y. \<not> fst (bfdExtEnable env y a)) \<and> Opt_x a \<in> set opts \<longrightarrow>
        snd (main env x0 opts) = Exit 1
        \<and> (\<exists>pre. fst (main env x0 opts) = pre @ bfddUsage env)"
  proof (rule impI)
    assume u: "(\<forall>y. \<not> fst (bfdExtEnable env y a)) \<and> Opt_x a \<in> set opts"
    then have "isl (snd (getopt_loop env opts (init_cmdline env) x0))"
      using getopt_loop_unknown [of env a opts] by blast
    then obtain st where st: "snd (getopt_loop env opts (init_cmdline env) x0) = Inl st"
      by (cases "snd (getopt_loop env opts (init_cmdline env) x0)") auto
    from getopt_loop_Inl [OF st] obtain pre where
      "st = 1" "fst (getopt_loop env opts (init_cmdline env) x0) = pre @ bfddUsage env"
      by blast
    with main_getopt_exit [OF st]
    have "snd (main env x0 opts) = Exit 1"
      "fst (main env x0 opts) = (BfdLogInit # pre) @ bfddUsage env"
      by simp_all
    then show "snd (main env x0 opts) = Exit 1
        \<and> (\<exists>pre. fst (main env x0 opts) = pre @ bfddUsage env)"
      by blast
  qed
  have cfgfile: "ext_name ext = Some a \<and> ext_bool ext \<and> \<not> fst (bfdExtEnable env x a) \<longrightarrow>
        extensions_loop env x i (ext # exts)
          = prepend
              [BfdLog LOG_WARNING
                 ''Attempt to enable unknown extension [%s] - ignoring\<newline>'' [S a]]
              (extensions_loop env (snd (bfdExtEnable env x a)) (Suc i) exts)"
    by simp
  from cmdline whole cfgfile show ?thesis by (intro conjI)
qed

theorem unknown_extension_by_source_witness:
  "\<not> fst (bfdExtEnable (sample_env (sessions_only [peer_only])) [] ''Foo'')
   \<and> snd (main (sample_env (sessions_only [peer_only])) []
            [Opt_d, Opt_x ''Foo'', Opt_c ''bfdd.conf'']) = Exit 1
   \<and> main (sample_env \<lparr>Extensions = Some [\<lparr>ext_name = Some ''Foo'', ext_bool = True\<rparr>],
                        Sessions = Some []\<rparr>) [] [Opt_d, Opt_c ''bfdd.conf'']
       = ([BfdLogInit, Srandom, TpInitTimers,
           TpSetSignalActor bfdStartPollSequence SIGUSR1,
           TpSetSignalActor bfdToggleAdminDown SIGUSR2, ConfigInit,
           BfdLog LOG_WARNING ''Attempt to enable unknown extension [%s] - ignoring\<newline>''
             [S ''Foo''],
           ConfigDestroy, BfdMonitorSetupServer 15243, TpDoEventLoop], EventLoop)"
proof -
  have u: "\<forall>y. \<not> fst (bfdExtEnable (sample_env (sessions_only [peer_only])) y ''Foo'')"
    by (simp add: sample_env_def)
  have "snd (main (sample_env (sessions_only [peer_only])) []
            [Opt_d, Opt_x ''Foo'', Opt_c ''bfdd.conf'']) = Exit 1"
    using u unknown_extension_by_source [of "sample_env (sessions_only [peer_only])" "[]" "''Foo''"
        "[]" "init_cmdline (sample_env (sessions_only [peer_only]))"
        "[Opt_d, Opt_x ''Foo'', Opt_c ''bfdd.conf'']" "[]"]
    by simp
  moreover have "main (sample_env \<lparr>Extensions = Some [\<lparr>ext_name = Some ''Foo'', ext_bool = True\<rparr>],
                        Sessions = Some []\<rparr>) [] [Opt_d, Opt_c ''bfdd.conf'']
       = ([BfdLogInit, Srandom, TpInitTimers,
           TpSetSignalActor bfdStartPollSequence SIGUSR1,
           TpSetSignalActor bfdToggleAdminDown SIGUSR2, ConfigInit,
           BfdLog LOG_WARNING ''Attempt to enable unknown extension [%s] - ignoring\<newline>''
             [S ''Foo''],
           ConfigDestroy, BfdMonitorSetupServer 15243, TpDoEventLoop], EventLoop)"
    by (simp add: main_def init_cmdline_def run_config_def parse_extensions_def
      parse_sessions_def sample_env_def prepend_def signal_actors_def)
  ultimately show ?thesis using u by simp
qed

subsection \<open>The signal actions\<close>

lemma filter_actor_empty:
  "(\<And>e. e \<in> set evs \<Longrightarrow> \<not> is_actor e) \<Longrightarrow> filter is_actor evs = []"
  by (simp add: filter_empty_conv)

lemma getopt_loop_no_actor: "filter is_actor (fst (getopt_loop env opts cmd x)) = []"
  by (rule filter_actor_empty) (auto simp add: is_actor_def dest!: getopt_loop_events)

lemma bfddUsage_no_actor: "filter is_actor (bfddUsage env) = []"
  by (rule filter_actor_empty) (auto simp add: is_actor_def dest!: bfddUsage_events)

lemma run_config_no_actor: "filter is_actor (fst (run_config env x cmd f)) = []"
  by (rule filter_actor_empty)
     (auto simp add: is_actor_def is_log_def is_register_def dest!: run_config_events
        split: event.splits)

lemma main_actors:
  "filter is_actor (fst (main env x0 opts)) =
     (case snd (getopt_loop env opts (init_cmdline env) x0) of
        Inl st \<Rightarrow> []
      | Inr (cmd, x) \<Rightarrow>
          if configFile cmd = None \<or> (daemon_mode cmd \<and> \<not> daemon_ok env) then []
          else signal_actors)"
proof (cases "snd (getopt_loop env opts (init_cmdline env) x0)")
  case (Inl st)
  with main_getopt_exit [OF Inl] show ?thesis
    by (simp add: getopt_loop_no_actor is_actor_def)
next
  case (Inr p)
  obtain cmd x where p: "p = (cmd, x)" by (cases p)
  note g = Inr [unfolded p]
  show ?thesis
  proof (cases "configFile cmd")
    case None
    with main_no_config [OF g None] g show ?thesis
      by (simp add: getopt_loop_no_actor bfddUsage_no_actor is_actor_def)
  next
    case (Some f)
    show ?thesis
    proof (cases "daemon_mode cmd \<and> \<not> daemon_ok env")
      case True
      with main_no_daemon [OF g Some True] g Some show ?thesis
        by (simp add: getopt_loop_no_actor is_actor_def)
    next
      case False
      with main_run_config [OF g Some False] g Some show ?thesis
        by (simp add: getopt_loop_no_actor run_config_no_actor is_actor_def signal_actors_def)
    qed
  qed
qed

lemma main_EventLoop:
  assumes "snd (main env x0 opts) = EventLoop"
  shows "\<exists>cmd x f. snd (getopt_loop env opts (init_cmdline env) x0) = Inr (cmd, x)
           \<and> configFile cmd = Some f \<and> \<not> (daemon_mode cmd \<and> \<not> daemon_ok env)
           \<and> snd (run_config env x cmd f) = EventLoop"
proof (cases "snd (getopt_loop env opts (init_cmdline env) x0)")
  case (Inl st)
  with main_getopt_exit [OF Inl] assms show ?thesis by simp
next
  case (Inr p)
  obtain cmd x where p: "p = (cmd, x)" by (cases p)
  note g = Inr [unfolded p]
  show ?thesis
  proof (cases "configFile cmd")
    case None
    with main_no_config [OF g None] assms show ?thesis by simp
  next
    case (Some f)
    show ?thesis
    proof (cases "daemon_mode cmd \<and> \<not> daemon_ok env")
      case True
      with main_no_daemon [OF g Some True] assms show ?thesis by simp
    next
      case False
      with main_run_config [OF g Some False] assms g Some show ?thesis by simp
    qed
  qed
qed

text \<open>The calls of \<open>tpSetSignalActor\<close> in a run of \<open>main\<close>, and the usage text.\<close>

lemma two_actors_installed:
  "(snd (main env x0 opts) = EventLoop \<longrightarrow>
      filter is_actor (fst (main env x0 opts))
        = [TpSetSignalActor bfdStartPollSequence SIGUSR1,
           TpSetSignalActor bfdToggleAdminDown SIGUSR2])
   \<and> (filter is_actor (fst (main env x0 opts))
         = [TpSetSignalActor bfdStartPollSequence SIGUSR1,
            TpSetSignalActor bfdToggleAdminDown SIGUSR2]
       \<or> filter is_actor (fst (main env x0 opts)) = [] \<and> snd (main env x0 opts) = Exit 1)
   \<and> Fprintf_stderr (tab @ ''USR1: start poll sequence on all demand mode sessions\<newline>'') []
        \<in> set (bfddUsage env)
   \<and> Fprintf_stderr (tab @ ''USR2: toggle admin down on all sessions\<newline>'') []
        \<in> set (bfddUsage env)"
proof (intro conjI impI)
  assume "snd (main env x0 opts) = EventLoop"
  from main_EventLoop [OF this] show "filter is_actor (fst (main env x0 opts))
        = [TpSetSignalActor bfdStartPollSequence SIGUSR1,
           TpSetSignalActor bfdToggleAdminDown SIGUSR2]"
    by (auto simp add: main_actors signal_actors_def)
next
  show "filter is_actor (fst (main env x0 opts))
         = [TpSetSignalActor bfdStartPollSequence SIGUSR1,
            TpSetSignalActor bfdToggleAdminDown SIGUSR2]
       \<or> filter is_actor (fst (main env x0 opts)) = [] \<and> snd (main env x0 opts) = Exit 1"
  proof (cases "filter is_actor (fst (main env x0 opts)) = []")
    case False
    then show ?thesis
      by (auto simp add: main_actors signal_actors_def split: sum.splits prod.splits if_splits)
  next
    case True
    then have "snd (main env x0 opts) \<noteq> EventLoop"
      using main_EventLoop [of env x0 opts]
      by (auto simp add: main_actors signal_actors_def)
    then obtain st where "snd (main env x0 opts) = Exit st"
      by (cases "snd (main env x0 opts)") auto
    with main_Exit_status [of env x0 opts st] True show ?thesis by simp
  qed
next
  show "Fprintf_stderr (tab @ ''USR1: start poll sequence on all demand mode sessions\<newline>'') []
        \<in> set (bfddUsage env)"
    by (simp add: bfddUsage_def)
next
  show "Fprintf_stderr (tab @ ''USR2: toggle admin down on all sessions\<newline>'') []
        \<in> set (bfddUsage env)"
    by (simp add: bfddUsage_def)
qed

lemma installed_filter: "installed evs sg = installed (filter is_actor evs) sg"
proof (induction evs)
  case Nil
  then show ?case by simp
next
  case (Cons e es)
  then show ?case
    by (cases e) (simp_all add: is_actor_def split: option.splits)
qed

lemma start_poll_nth:
  assumes "k < length reg"
  shows "signal_action bfdStartPollSequence reg ! k
           = (if DemandMode (conf (reg ! k)) \<noteq> 0 then (reg ! k)\<lparr>pollInProgress := True\<rparr>
              else reg ! k)"
  using assms by (simp add: start_poll_def)

lemma toggle_nth:
  assumes "k < length reg"
  shows "signal_action bfdToggleAdminDown reg ! k
           = (if localState (reg ! k) = AdminDown then (reg ! k)\<lparr>localState := Down\<rparr>
              else (reg ! k)\<lparr>localState := AdminDown, localDiag := AdministrativelyDown\<rparr>)"
  using assms
  by (simp add: toggle_admin_down_def admin_up_requested_def admin_down_requested_def)

text \<open>
  C5. \<open>main\<close> installs exactly two signal actions: \<open>bfdStartPollSequence\<close> for SIGUSR1
  and \<open>bfdToggleAdminDown\<close> for SIGUSR2. In every run that reaches the event loop these
  are the only two \<open>tpSetSignalActor\<close> calls, so that SIGUSR1 delivers the first action
  and SIGUSR2 the second; a run that installed none has exited with status 1 before line
  116. The usage text names what the two signals do. The first action starts a manual
  poll on every demand-mode session of the Registry: it sets \<open>pollInProgress\<close>, changes no
  configured value, state or diagnostic, and leaves every other session as it is. The
  second toggles administrative-down on every session: a session in \<open>AdminDown\<close> goes to
  \<open>Down\<close>, every other session goes to \<open>AdminDown\<close> with the diagnostic
  \<open>AdministrativelyDown\<close>.
\<close>

theorem signal_actions:
  "(snd (main env x0 opts) = EventLoop \<longrightarrow>
      filter is_actor (fst (main env x0 opts))
        = [TpSetSignalActor bfdStartPollSequence SIGUSR1,
           TpSetSignalActor bfdToggleAdminDown SIGUSR2]
      \<and> deliver (fst (main env x0 opts)) SIGUSR1 reg
          = Some (signal_action bfdStartPollSequence reg)
      \<and> deliver (fst (main env x0 opts)) SIGUSR2 reg
          = Some (signal_action bfdToggleAdminDown reg))
   \<and> (filter is_actor (fst (main env x0 opts))
         = [TpSetSignalActor bfdStartPollSequence SIGUSR1,
            TpSetSignalActor bfdToggleAdminDown SIGUSR2]
       \<or> filter is_actor (fst (main env x0 opts)) = [] \<and> snd (main env x0 opts) = Exit 1)
   \<and> Fprintf_stderr (tab @ ''USR1: start poll sequence on all demand mode sessions\<newline>'') []
        \<in> set (bfddUsage env)
   \<and> Fprintf_stderr (tab @ ''USR2: toggle admin down on all sessions\<newline>'') []
        \<in> set (bfddUsage env)
   \<and> length (signal_action bfdStartPollSequence reg) = length reg
   \<and> (\<forall>k < length reg.
         conf (signal_action bfdStartPollSequence reg ! k) = conf (reg ! k)
         \<and> localState (signal_action bfdStartPollSequence reg ! k) = localState (reg ! k)
         \<and> localDiag (signal_action bfdStartPollSequence reg ! k) = localDiag (reg ! k)
         \<and> (DemandMode (conf (reg ! k)) \<noteq> 0 \<longrightarrow>
               pollInProgress (signal_action bfdStartPollSequence reg ! k))
         \<and> (DemandMode (conf (reg ! k)) = 0 \<longrightarrow>
               signal_action bfdStartPollSequence reg ! k = reg ! k))
   \<and> length (signal_action bfdToggleAdminDown reg) = length reg
   \<and> (\<forall>k < length reg.
         conf (signal_action bfdToggleAdminDown reg ! k) = conf (reg ! k)
         \<and> pollInProgress (signal_action bfdToggleAdminDown reg ! k) = pollInProgress (reg ! k)
         \<and> (localState (reg ! k) = AdminDown \<longrightarrow>
               localState (signal_action bfdToggleAdminDown reg ! k) = Down
               \<and> localDiag (signal_action bfdToggleAdminDown reg ! k) = localDiag (reg ! k))
         \<and> (localState (reg ! k) \<noteq> AdminDown \<longrightarrow>
               localState (signal_action bfdToggleAdminDown reg ! k) = AdminDown
               \<and> localDiag (signal_action bfdToggleAdminDown reg ! k) = AdministrativelyDown))"
proof -
  note two = two_actors_installed [of env x0 opts]
  have run: "snd (main env x0 opts) = EventLoop \<longrightarrow>
      filter is_actor (fst (main env x0 opts))
        = [TpSetSignalActor bfdStartPollSequence SIGUSR1,
           TpSetSignalActor bfdToggleAdminDown SIGUSR2]
      \<and> deliver (fst (main env x0 opts)) SIGUSR1 reg
          = Some (signal_action bfdStartPollSequence reg)
      \<and> deliver (fst (main env x0 opts)) SIGUSR2 reg
          = Some (signal_action bfdToggleAdminDown reg)"
  proof
    assume "snd (main env x0 opts) = EventLoop"
    with two have f: "filter is_actor (fst (main env x0 opts))
        = [TpSetSignalActor bfdStartPollSequence SIGUSR1,
           TpSetSignalActor bfdToggleAdminDown SIGUSR2]"
      by blast
    have "installed (fst (main env x0 opts)) SIGUSR1 = Some bfdStartPollSequence"
      by (subst installed_filter) (simp add: f)
    moreover have "installed (fst (main env x0 opts)) SIGUSR2 = Some bfdToggleAdminDown"
      by (subst installed_filter) (simp add: f)
    ultimately show "filter is_actor (fst (main env x0 opts))
        = [TpSetSignalActor bfdStartPollSequence SIGUSR1,
           TpSetSignalActor bfdToggleAdminDown SIGUSR2]
      \<and> deliver (fst (main env x0 opts)) SIGUSR1 reg
          = Some (signal_action bfdStartPollSequence reg)
      \<and> deliver (fst (main env x0 opts)) SIGUSR2 reg
          = Some (signal_action bfdToggleAdminDown reg)"
      using f by (simp add: deliver_def)
  qed
  have poll: "\<forall>k < length reg.
         conf (signal_action bfdStartPollSequence reg ! k) = conf (reg ! k)
         \<and> localState (signal_action bfdStartPollSequence reg ! k) = localState (reg ! k)
         \<and> localDiag (signal_action bfdStartPollSequence reg ! k) = localDiag (reg ! k)
         \<and> (DemandMode (conf (reg ! k)) \<noteq> 0 \<longrightarrow>
               pollInProgress (signal_action bfdStartPollSequence reg ! k))
         \<and> (DemandMode (conf (reg ! k)) = 0 \<longrightarrow>
               signal_action bfdStartPollSequence reg ! k = reg ! k)"
    by (intro allI impI) (simp add: start_poll_nth del: signal_action.simps)
  have toggle: "\<forall>k < length reg.
         conf (signal_action bfdToggleAdminDown reg ! k) = conf (reg ! k)
         \<and> pollInProgress (signal_action bfdToggleAdminDown reg ! k) = pollInProgress (reg ! k)
         \<and> (localState (reg ! k) = AdminDown \<longrightarrow>
               localState (signal_action bfdToggleAdminDown reg ! k) = Down
               \<and> localDiag (signal_action bfdToggleAdminDown reg ! k) = localDiag (reg ! k))
         \<and> (localState (reg ! k) \<noteq> AdminDown \<longrightarrow>
               localState (signal_action bfdToggleAdminDown reg ! k) = AdminDown
               \<and> localDiag (signal_action bfdToggleAdminDown reg ! k) = AdministrativelyDown)"
    by (intro allI impI) (simp add: toggle_nth del: signal_action.simps)
  have len: "length (signal_action bfdStartPollSequence reg) = length reg"
    "length (signal_action bfdToggleAdminDown reg) = length reg"
    by simp_all
  from run two poll toggle len show ?thesis by (intro conjI) blast+
qed

theorem signal_actions_witness:
  "snd (main (sample_env (sessions_only [peer_only])) [] [Opt_c ''bfdd.conf'']) = EventLoop
   \<and> deliver (fst (main (sample_env (sessions_only [peer_only])) [] [Opt_c ''bfdd.conf'']))
         SIGUSR1 [demand_session, plain_session]
       = Some [demand_session\<lparr>pollInProgress := True\<rparr>, plain_session]
   \<and> deliver (fst (main (sample_env (sessions_only [peer_only])) [] [Opt_c ''bfdd.conf'']))
         SIGUSR2 [demand_session, plain_session]
       = Some [demand_session\<lparr>localState := AdminDown, localDiag := AdministrativelyDown\<rparr>,
               plain_session\<lparr>localState := Down\<rparr>]"
proof -
  have run: "snd (main (sample_env (sessions_only [peer_only])) [] [Opt_c ''bfdd.conf''])
      = EventLoop"
    by (simp add: main_def init_cmdline_def run_config_def parse_extensions_def
      parse_sessions_def sessions_only_def no_fields_def peer_only_def sample_env_def
      session_body_def parse_session_def lookup_PeerPort_def lookup_LocalPort_def
      lookup_DetectMult_def create_session_def AF_INET_def prepend_def)
  have poll: "signal_action bfdStartPollSequence [demand_session, plain_session]
      = [demand_session\<lparr>pollInProgress := True\<rparr>, plain_session]"
    by (simp add: demand_session_def plain_session_def start_poll_def)
  have toggle: "signal_action bfdToggleAdminDown [demand_session, plain_session]
      = [demand_session\<lparr>localState := AdminDown, localDiag := AdministrativelyDown\<rparr>,
         plain_session\<lparr>localState := Down\<rparr>]"
    by (simp add: demand_session_def plain_session_def toggle_admin_down_def
      admin_up_requested_def admin_down_requested_def)
  from run poll toggle show ?thesis
    using signal_actions [of "sample_env (sessions_only [peer_only])" "[]"
        "[Opt_c ''bfdd.conf'']" "[demand_session, plain_session]"]
    by (simp del: signal_action.simps)
qed

subsection \<open>Registration\<close>

lemma create_session_Registered:
  assumes "create_session env regs i l = Registered evs bfd"
  shows "\<exists>hp. gethostbyname env (connectaddr l) = Inr hp \<and> h_addrtype hp = AF_INET
           \<and> malloc_ok env i \<and> bfdRegisterSession env regs bfd
           \<and> bfd = make_session l (h_addr hp)
           \<and> evs = [notice_line i l,
                    BfdLog LOG_INFO ''Creating initial session with %s (%s)\<newline>''
                      [S (connectaddr l), A (h_addr hp)],
                    BfdRegisterSession bfd]"
  using assms unfolding create_session_def
  by (auto split: sum.splits if_splits)

lemma session_body_Registered:
  assumes "session_body env x regs i sn = Registered evs bfd"
  shows "\<exists>l hp. parse_session env x i sn = Inr l
           \<and> gethostbyname env (connectaddr l) = Inr hp
           \<and> bfd = make_session l (h_addr hp)
           \<and> evs = [notice_line i l,
                    BfdLog LOG_INFO ''Creating initial session with %s (%s)\<newline>''
                      [S (connectaddr l), A (h_addr hp)],
                    BfdRegisterSession bfd]"
proof (cases "parse_session env x i sn")
  case (Inl w)
  with assms show ?thesis by (simp add: session_body_def)
next
  case (Inr l)
  with assms have "create_session env regs i l = Registered evs bfd"
    by (simp add: session_body_def)
  from create_session_Registered [OF this] Inr show ?thesis by blast
qed

lemma log_not_register: "is_log e \<Longrightarrow> \<not> is_register e"
  by (cases e) (simp_all add: is_log_def is_register_def)

lemma session_body_Continue_logs:
  "session_body env x regs i sn = Continue evs \<Longrightarrow> filter is_register evs = []"
proof (cases "parse_session env x i sn")
  case (Inl w)
  assume "session_body env x regs i sn = Continue evs"
  with Inl have "evs = w" by (simp add: session_body_def)
  with parse_session_events [OF Inl] have "\<forall>e \<in> set evs. \<not> is_register e"
    using log_not_register by blast
  then show ?thesis
    by (simp add: filter_empty_conv)
next
  case (Inr l)
  assume "session_body env x regs i sn = Continue evs"
  with Inr show ?thesis
    by (auto simp add: session_body_def create_session_def split: sum.splits if_splits)
qed

lemma sessions_loop_registry:
  "snd (sessions_loop env x regs i sns) = Inr regs' \<Longrightarrow>
   map BfdRegisterSession regs'
     = map BfdRegisterSession regs @ filter is_register (fst (sessions_loop env x regs i sns))"
proof (induction sns arbitrary: regs i)
  case Nil
  then show ?case by simp
next
  case (Cons sn sns)
  show ?case
  proof (cases "session_body env x regs i sn")
    case (Continue evs)
    with Cons.prems have "snd (sessions_loop env x regs (Suc i) sns) = Inr regs'" by simp
    from Cons.IH [OF this] Continue session_body_Continue_logs [OF Continue] show ?thesis
      by simp
  next
    case (Registered evs bfd)
    with Cons.prems have "snd (sessions_loop env x (regs @ [bfd]) (Suc i) sns) = Inr regs'"
      by simp
    from Cons.IH [OF this] Registered session_body_Registered [OF Registered] show ?thesis
      by (auto simp add: is_register_def is_log_def notice_line_def)
  next
    case (Exits evs st)
    with Cons.prems show ?thesis by simp
  qed
qed

lemma run_config_loop_last:
  "TpDoEventLoop \<notin> set (fst (run_config env x cmd f)) \<and> snd (run_config env x cmd f) \<noteq> EventLoop
   \<or> (\<exists>evs. TpDoEventLoop \<notin> set evs \<and> fst (run_config env x cmd f) = evs @ [TpDoEventLoop])"
proof (cases "config_read_file env f")
  case (Inl err)
  then show ?thesis by (simp add: run_config_def)
next
  case (Inr cfg)
  have ext: "TpDoEventLoop \<notin> set (fst (parse_extensions env x cfg))"
    using extensions_loop_events [of TpDoEventLoop env x 0]
    by (auto simp add: parse_extensions_def is_warning_def split: option.splits)
  have ses: "TpDoEventLoop \<notin> set (fst (parse_sessions env y cfg))" for y
    using sessions_loop_events [of TpDoEventLoop env y "[]" 0]
    by (auto simp add: parse_sessions_def is_log_def is_register_def split: option.splits)
  obtain evs r where ps: "parse_sessions env (snd (parse_extensions env x cfg)) cfg = (evs, r)"
    by (cases "parse_sessions env (snd (parse_extensions env x cfg)) cfg")
  have evs: "TpDoEventLoop \<notin> set evs"
    using ses [of "snd (parse_extensions env x cfg)"] ps by simp
  show ?thesis
  proof (cases r)
    case (Inl st)
    with \<open>config_read_file env f = Inr cfg\<close> ps ext evs show ?thesis
      by (simp add: run_config_def)
  next
    case (Inr regs)
    have "fst (run_config env x cmd f)
            = (ConfigInit # fst (parse_extensions env x cfg) @ evs
                 @ [ConfigDestroy, BfdMonitorSetupServer (monitor_port cmd)]) @ [TpDoEventLoop]"
      using \<open>config_read_file env f = Inr cfg\<close> ps Inr by (simp add: run_config_def)
    moreover have "TpDoEventLoop \<notin> set (ConfigInit # fst (parse_extensions env x cfg) @ evs
                 @ [ConfigDestroy, BfdMonitorSetupServer (monitor_port cmd)])"
      using ext evs by simp
    ultimately show ?thesis by blast
  qed
qed

lemma getopt_loop_no_loop: "TpDoEventLoop \<notin> set (fst (getopt_loop env opts cmd x))"
  using getopt_loop_events [of TpDoEventLoop env opts cmd x] by auto

lemma bfddUsage_no_loop: "TpDoEventLoop \<notin> set (bfddUsage env)"
  using bfddUsage_events [of TpDoEventLoop env] by auto

lemma main_loop_last:
  "TpDoEventLoop \<notin> set (fst (main env x0 opts)) \<and> snd (main env x0 opts) \<noteq> EventLoop
   \<or> (\<exists>evs. TpDoEventLoop \<notin> set evs \<and> fst (main env x0 opts) = evs @ [TpDoEventLoop])"
proof (cases "snd (getopt_loop env opts (init_cmdline env) x0)")
  case (Inl st)
  with main_getopt_exit [OF Inl] getopt_loop_no_loop [of env opts "init_cmdline env" x0]
  show ?thesis by simp
next
  case (Inr p)
  obtain cmd x where p: "p = (cmd, x)" by (cases p)
  note g = Inr [unfolded p]
  note no = getopt_loop_no_loop [of env opts "init_cmdline env" x0]
  show ?thesis
  proof (cases "configFile cmd")
    case None
    with main_no_config [OF g None] no bfddUsage_no_loop [of env] show ?thesis by simp
  next
    case (Some f)
    show ?thesis
    proof (cases "daemon_mode cmd \<and> \<not> daemon_ok env")
      case True
      with main_no_daemon [OF g Some True] no show ?thesis by simp
    next
      case False
      define pre where "pre = BfdLogInit # fst (getopt_loop env opts (init_cmdline env) x0)
                @ (if daemon_mode cmd then [Daemon 1 0] else [])
                @ [Srandom, TpInitTimers] @ signal_actors"
      have m: "main env x0 opts = prepend pre (run_config env x cmd f)"
        unfolding pre_def by (rule main_run_config [OF g Some False])
      have pre: "TpDoEventLoop \<notin> set pre"
        using no by (simp add: pre_def signal_actors_def)
      from run_config_loop_last [of env x cmd f] show ?thesis
      proof
        assume "TpDoEventLoop \<notin> set (fst (run_config env x cmd f))
          \<and> snd (run_config env x cmd f) \<noteq> EventLoop"
        with m pre show ?thesis by simp
      next
        assume "\<exists>evs. TpDoEventLoop \<notin> set evs
          \<and> fst (run_config env x cmd f) = evs @ [TpDoEventLoop]"
        then obtain evs where evs: "TpDoEventLoop \<notin> set evs"
          "fst (run_config env x cmd f) = evs @ [TpDoEventLoop]" by blast
        with m pre have "TpDoEventLoop \<notin> set (pre @ evs)"
          "fst (main env x0 opts) = (pre @ evs) @ [TpDoEventLoop]" by simp_all
        then show ?thesis by blast
      qed
    qed
  qed
qed

lemma before_loop:
  assumes "TpDoEventLoop \<notin> set evs"
    and "evs @ [TpDoEventLoop] = pre @ e # post" and "e \<noteq> TpDoEventLoop"
  shows "TpDoEventLoop \<notin> set pre \<and> post \<noteq> [] \<and> last post = TpDoEventLoop"
proof -
  have ne: "post \<noteq> []"
  proof
    assume "post = []"
    with assms(2) have "last (evs @ [TpDoEventLoop]) = last (pre @ [e])" by simp
    with assms(3) show False by simp
  qed
  have "last (evs @ [TpDoEventLoop]) = last (pre @ e # post)"
    using assms(2) by simp
  with ne have l: "last post = TpDoEventLoop" by simp
  have "butlast (evs @ [TpDoEventLoop]) = butlast (pre @ e # post)"
    using assms(2) by simp
  with ne have "evs = pre @ e # butlast post"
    by (simp add: butlast_append)
  with assms(1) have "TpDoEventLoop \<notin> set pre" by auto
  with ne l show ?thesis by simp
qed

text \<open>
  C6. A session created from the configuration is registered as soon as its record is
  populated: when a round of the Sessions loop creates a session, the call of
  \<open>bfdRegisterSession\<close> on the populated record is the last call of the round, and the
  next descriptor is processed with that record among the registered ones. The records
  registered when the loop ends are the initial ones followed by the arguments of the
  registration calls, in order. In the run of \<open>main\<close>, no registration comes after the
  start of the event loop: \<open>tpDoEventLoop\<close> is not called before a registration, and in a
  run that reaches the event loop it is the last call, after every registration.
\<close>

theorem session_registered_at_once:
  "(session_body env x regs i sn = Registered evs bfd \<longrightarrow>
      (\<exists>l hp. parse_session env x i sn = Inr l
         \<and> gethostbyname env (connectaddr l) = Inr hp
         \<and> bfd = make_session l (h_addr hp)
         \<and> evs = [notice_line i l,
                  BfdLog LOG_INFO ''Creating initial session with %s (%s)\<newline>''
                    [S (connectaddr l), A (h_addr hp)],
                  BfdRegisterSession bfd])
      \<and> sessions_loop env x regs i (sn # sns)
          = prepend evs (sessions_loop env x (regs @ [bfd]) (Suc i) sns))
   \<and> (snd (sessions_loop env x regs i sns) = Inr regs' \<longrightarrow>
        map BfdRegisterSession regs'
          = map BfdRegisterSession regs
              @ filter is_register (fst (sessions_loop env x regs i sns)))
   \<and> (\<forall>pre post. fst (main env x0 opts) = pre @ BfdRegisterSession bfd # post \<longrightarrow>
        TpDoEventLoop \<notin> set pre
        \<and> (snd (main env x0 opts) = EventLoop \<longrightarrow> post \<noteq> [] \<and> last post = TpDoEventLoop))"
proof -
  have body: "session_body env x regs i sn = Registered evs bfd \<longrightarrow>
      (\<exists>l hp. parse_session env x i sn = Inr l
         \<and> gethostbyname env (connectaddr l) = Inr hp
         \<and> bfd = make_session l (h_addr hp)
         \<and> evs = [notice_line i l,
                  BfdLog LOG_INFO ''Creating initial session with %s (%s)\<newline>''
                    [S (connectaddr l), A (h_addr hp)],
                  BfdRegisterSession bfd])
      \<and> sessions_loop env x regs i (sn # sns)
          = prepend evs (sessions_loop env x (regs @ [bfd]) (Suc i) sns)"
    using session_body_Registered [of env x regs i sn evs bfd] by simp
  have registry: "snd (sessions_loop env x regs i sns) = Inr regs' \<longrightarrow>
        map BfdRegisterSession regs'
          = map BfdRegisterSession regs
              @ filter is_register (fst (sessions_loop env x regs i sns))"
    using sessions_loop_registry [of env x regs i sns regs'] by simp
  have order: "\<forall>pre post. fst (main env x0 opts) = pre @ BfdRegisterSession bfd # post \<longrightarrow>
        TpDoEventLoop \<notin> set pre
        \<and> (snd (main env x0 opts) = EventLoop \<longrightarrow> post \<noteq> [] \<and> last post = TpDoEventLoop)"
  proof (intro allI impI)
    fix pre post
    assume t: "fst (main env x0 opts) = pre @ BfdRegisterSession bfd # post"
    from main_loop_last [of env x0 opts]
    show "TpDoEventLoop \<notin> set pre
        \<and> (snd (main env x0 opts) = EventLoop \<longrightarrow> post \<noteq> [] \<and> last post = TpDoEventLoop)"
    proof
      assume "TpDoEventLoop \<notin> set (fst (main env x0 opts))
        \<and> snd (main env x0 opts) \<noteq> EventLoop"
      with t show ?thesis by simp
    next
      assume "\<exists>evs. TpDoEventLoop \<notin> set evs
        \<and> fst (main env x0 opts) = evs @ [TpDoEventLoop]"
      then obtain evs where evs: "TpDoEventLoop \<notin> set evs"
        and e: "fst (main env x0 opts) = evs @ [TpDoEventLoop]" by blast
      from e t have "evs @ [TpDoEventLoop] = pre @ BfdRegisterSession bfd # post" by simp
      from before_loop [OF evs this] show ?thesis by simp
    qed
  qed
  from body registry order show ?thesis by (intro conjI)
qed

theorem session_registered_at_once_witness:
  "session_body (sample_env (sessions_only [])) [] [] 0 peer_only
     = Registered
         [notice_line 0 \<lparr>connectaddr = ''192.0.2.1'', peerPort = 3784, localport = 3784,
            demandMode = 0, detectMult = 3, reqMinRx = 100000, desMinTx = 100000\<rparr>,
          BfdLog LOG_INFO ''Creating initial session with %s (%s)\<newline>''
            [S ''192.0.2.1'', A 0xC0000201],
          BfdRegisterSession \<lparr>DemandMode = 0, DetectMult = 3, DesiredMinTxInterval = 100000,
            RequiredMinRxInterval = 100000, PeerAddr = 0xC0000201, PeerPort = 3784,
            LocalPort = 3784\<rparr>]
         \<lparr>DemandMode = 0, DetectMult = 3, DesiredMinTxInterval = 100000,
            RequiredMinRxInterval = 100000, PeerAddr = 0xC0000201, PeerPort = 3784,
            LocalPort = 3784\<rparr>
   \<and> sessions_loop (sample_env (sessions_only [])) [] [] 0
        [peer_only, peer_only\<lparr>cfg_DetectMult := Some 5\<rparr>]
       = prepend
           [notice_line 0 \<lparr>connectaddr = ''192.0.2.1'', peerPort = 3784, localport = 3784,
              demandMode = 0, detectMult = 3, reqMinRx = 100000, desMinTx = 100000\<rparr>,
            BfdLog LOG_INFO ''Creating initial session with %s (%s)\<newline>''
              [S ''192.0.2.1'', A 0xC0000201],
            BfdRegisterSession \<lparr>DemandMode = 0, DetectMult = 3, DesiredMinTxInterval = 100000,
              RequiredMinRxInterval = 100000, PeerAddr = 0xC0000201, PeerPort = 3784,
              LocalPort = 3784\<rparr>]
           (sessions_loop (sample_env (sessions_only []))  []
              [\<lparr>DemandMode = 0, DetectMult = 3, DesiredMinTxInterval = 100000,
                 RequiredMinRxInterval = 100000, PeerAddr = 0xC0000201, PeerPort = 3784,
                 LocalPort = 3784\<rparr>]
              (Suc 0) [peer_only\<lparr>cfg_DetectMult := Some 5\<rparr>])
   \<and> snd (sessions_loop (sample_env (sessions_only [])) [] [] 0
        [peer_only, peer_only\<lparr>cfg_DetectMult := Some 5\<rparr>])
       = Inr [\<lparr>DemandMode = 0, DetectMult = 3, DesiredMinTxInterval = 100000,
                RequiredMinRxInterval = 100000, PeerAddr = 0xC0000201, PeerPort = 3784,
                LocalPort = 3784\<rparr>,
              \<lparr>DemandMode = 0, DetectMult = 5, DesiredMinTxInterval = 100000,
                RequiredMinRxInterval = 100000, PeerAddr = 0xC0000201, PeerPort = 3784,
                LocalPort = 3784\<rparr>]
   \<and> fst (main (sample_env (sessions_only [peer_only])) [] [Opt_d, Opt_c ''bfdd.conf''])
       = [BfdLogInit, Srandom, TpInitTimers,
          TpSetSignalActor bfdStartPollSequence SIGUSR1,
          TpSetSignalActor bfdToggleAdminDown SIGUSR2, ConfigInit,
          notice_line 0 \<lparr>connectaddr = ''192.0.2.1'', peerPort = 3784, localport = 3784,
            demandMode = 0, detectMult = 3, reqMinRx = 100000, desMinTx = 100000\<rparr>,
          BfdLog LOG_INFO ''Creating initial session with %s (%s)\<newline>''
            [S ''192.0.2.1'', A 0xC0000201]]
         @ BfdRegisterSession \<lparr>DemandMode = 0, DetectMult = 3, DesiredMinTxInterval = 100000,
            RequiredMinRxInterval = 100000, PeerAddr = 0xC0000201, PeerPort = 3784,
            LocalPort = 3784\<rparr>
         # [ConfigDestroy, BfdMonitorSetupServer 15243, TpDoEventLoop]
   \<and> TpDoEventLoop \<notin> set [BfdLogInit, Srandom, TpInitTimers,
          TpSetSignalActor bfdStartPollSequence SIGUSR1,
          TpSetSignalActor bfdToggleAdminDown SIGUSR2, ConfigInit,
          notice_line 0 \<lparr>connectaddr = ''192.0.2.1'', peerPort = 3784, localport = 3784,
            demandMode = 0, detectMult = 3, reqMinRx = 100000, desMinTx = 100000\<rparr>,
          BfdLog LOG_INFO ''Creating initial session with %s (%s)\<newline>''
            [S ''192.0.2.1'', A 0xC0000201]]"
proof -
  let ?B = "\<lparr>DemandMode = 0, DetectMult = 3, DesiredMinTxInterval = 100000,
            RequiredMinRxInterval = 100000, PeerAddr = 0xC0000201, PeerPort = 3784,
            LocalPort = 3784\<rparr>"
  let ?evs = "[notice_line 0 \<lparr>connectaddr = ''192.0.2.1'', peerPort = 3784, localport = 3784,
            demandMode = 0, detectMult = 3, reqMinRx = 100000, desMinTx = 100000\<rparr>,
          BfdLog LOG_INFO ''Creating initial session with %s (%s)\<newline>''
            [S ''192.0.2.1'', A 0xC0000201],
          BfdRegisterSession ?B]"
  have body: "session_body (sample_env (sessions_only [])) [] [] 0 peer_only = Registered ?evs ?B"
    by (simp add: no_fields_def peer_only_def sample_env_def session_body_def
      parse_session_def lookup_PeerPort_def lookup_LocalPort_def lookup_DetectMult_def
      create_session_def make_session_def AF_INET_def)
  have step: "sessions_loop (sample_env (sessions_only [])) [] [] 0
        [peer_only, peer_only\<lparr>cfg_DetectMult := Some 5\<rparr>]
       = prepend ?evs
           (sessions_loop (sample_env (sessions_only [])) [] [?B] (Suc 0)
              [peer_only\<lparr>cfg_DetectMult := Some 5\<rparr>])"
    using body session_registered_at_once [of "sample_env (sessions_only [])" "[]" "[]" 0
        peer_only ?evs ?B "[peer_only\<lparr>cfg_DetectMult := Some 5\<rparr>]"]
    by (simp del: sessions_loop.simps)
  have "snd (sessions_loop (sample_env (sessions_only [])) [] [?B] (Suc 0)
              [peer_only\<lparr>cfg_DetectMult := Some 5\<rparr>])
       = Inr [?B, \<lparr>DemandMode = 0, DetectMult = 5, DesiredMinTxInterval = 100000,
                RequiredMinRxInterval = 100000, PeerAddr = 0xC0000201, PeerPort = 3784,
                LocalPort = 3784\<rparr>]"
    by (simp add: no_fields_def peer_only_def sample_env_def session_body_def
      parse_session_def lookup_PeerPort_def lookup_LocalPort_def lookup_DetectMult_def
      create_session_def make_session_def AF_INET_def prepend_def)
  with body step have loop: "session_body (sample_env (sessions_only [])) [] [] 0 peer_only
      = Registered ?evs ?B
    \<and> sessions_loop (sample_env (sessions_only [])) [] [] 0
        [peer_only, peer_only\<lparr>cfg_DetectMult := Some 5\<rparr>]
       = prepend ?evs
           (sessions_loop (sample_env (sessions_only [])) [] [?B] (Suc 0)
              [peer_only\<lparr>cfg_DetectMult := Some 5\<rparr>])
    \<and> snd (sessions_loop (sample_env (sessions_only [])) [] [] 0
        [peer_only, peer_only\<lparr>cfg_DetectMult := Some 5\<rparr>])
       = Inr [?B, \<lparr>DemandMode = 0, DetectMult = 5, DesiredMinTxInterval = 100000,
                RequiredMinRxInterval = 100000, PeerAddr = 0xC0000201, PeerPort = 3784,
                LocalPort = 3784\<rparr>]"
    by (simp only: snd_prepend simp_thms)
  have run: "fst (main (sample_env (sessions_only [peer_only])) [] [Opt_d, Opt_c ''bfdd.conf''])
       = [BfdLogInit, Srandom, TpInitTimers,
          TpSetSignalActor bfdStartPollSequence SIGUSR1,
          TpSetSignalActor bfdToggleAdminDown SIGUSR2, ConfigInit,
          notice_line 0 \<lparr>connectaddr = ''192.0.2.1'', peerPort = 3784, localport = 3784,
            demandMode = 0, detectMult = 3, reqMinRx = 100000, desMinTx = 100000\<rparr>,
          BfdLog LOG_INFO ''Creating initial session with %s (%s)\<newline>''
            [S ''192.0.2.1'', A 0xC0000201]]
         @ BfdRegisterSession \<lparr>DemandMode = 0, DetectMult = 3, DesiredMinTxInterval = 100000,
            RequiredMinRxInterval = 100000, PeerAddr = 0xC0000201, PeerPort = 3784,
            LocalPort = 3784\<rparr>
         # [ConfigDestroy, BfdMonitorSetupServer 15243, TpDoEventLoop]"
    by (simp add: main_def init_cmdline_def run_config_def parse_extensions_def
      parse_sessions_def sessions_only_def no_fields_def peer_only_def sample_env_def
      session_body_def parse_session_def lookup_PeerPort_def lookup_LocalPort_def
      lookup_DetectMult_def create_session_def make_session_def AF_INET_def prepend_def
      signal_actors_def)
  have before: "TpDoEventLoop \<notin> set [BfdLogInit, Srandom, TpInitTimers,
          TpSetSignalActor bfdStartPollSequence SIGUSR1,
          TpSetSignalActor bfdToggleAdminDown SIGUSR2, ConfigInit,
          notice_line 0 \<lparr>connectaddr = ''192.0.2.1'', peerPort = 3784, localport = 3784,
            demandMode = 0, detectMult = 3, reqMinRx = 100000, desMinTx = 100000\<rparr>,
          BfdLog LOG_INFO ''Creating initial session with %s (%s)\<newline>''
            [S ''192.0.2.1'', A 0xC0000201]]"
    using session_registered_at_once [where bfd = ?B
        and env = "sample_env (sessions_only [peer_only])" and ?x0.0 = "[]"
        and opts = "[Opt_d, Opt_c ''bfdd.conf'']",
        THEN conjunct2, THEN conjunct2, rule_format, OF run]
    by blast
  from loop run before show ?thesis by (intro conjI) blast+
qed

subsection \<open>Fatal errors of the startup\<close>

lemma sessions_loop_append:
  "sessions_loop env x regs i (pre @ rest) =
     (case snd (sessions_loop env x regs i pre) of
        Inl st \<Rightarrow> sessions_loop env x regs i pre
      | Inr regs' \<Rightarrow>
          prepend (fst (sessions_loop env x regs i pre))
            (sessions_loop env x regs' (i + length pre) rest))"
proof (induction pre arbitrary: regs i)
  case Nil
  then show ?case by (simp add: prepend_def)
next
  case (Cons sn pre)
  show ?case
  proof (cases "session_body env x regs i sn")
    case (Continue evs)
    then show ?thesis
      using Cons.IH [of regs "Suc i"]
      by (simp add: prepend_def split: sum.splits)
  next
    case (Registered evs bfd)
    then show ?thesis
      using Cons.IH [of "regs @ [bfd]" "Suc i"]
      by (simp add: prepend_def split: sum.splits)
  next
    case (Exits evs st)
    then show ?thesis by simp
  qed
qed

text \<open>The four ways the creation of a session fails (lines 250 to 285).\<close>

lemma create_session_fails:
  assumes "(\<exists>herr. gethostbyname env (connectaddr l) = Inl herr)
           \<or> (\<exists>hp. gethostbyname env (connectaddr l) = Inr hp
                 \<and> (h_addrtype hp \<noteq> AF_INET \<or> \<not> malloc_ok env i
                      \<or> \<not> bfdRegisterSession env regs (make_session l (h_addr hp))))"
  shows "\<exists>evs. create_session env regs i l = Exits evs 1"
  using assms unfolding create_session_def
  by (auto split: sum.splits)

lemma sessions_loop_fatal:
  assumes "snd (sessions_loop env x regs0 0 pre) = Inr regs"
    and "parse_session env x (length pre) sn = Inr l"
    and "(\<exists>herr. gethostbyname env (connectaddr l) = Inl herr)
           \<or> (\<exists>hp. gethostbyname env (connectaddr l) = Inr hp
                 \<and> (h_addrtype hp \<noteq> AF_INET \<or> \<not> malloc_ok env (length pre)
                      \<or> \<not> bfdRegisterSession env regs (make_session l (h_addr hp))))"
  shows "snd (sessions_loop env x regs0 0 (pre @ sn # post)) = Inl 1"
proof -
  from create_session_fails [OF assms(3)] obtain evs where
    "create_session env regs (length pre) l = Exits evs 1" by blast
  with assms(2) have "session_body env x regs (length pre) sn = Exits evs 1"
    by (simp add: session_body_def)
  then have "snd (sessions_loop env x regs (length pre) (sn # post)) = Inl 1"
    by simp
  with assms(1) show ?thesis
    by (simp add: sessions_loop_append)
qed

text \<open>
  C3. Let the command line be accepted and name the configuration file \<open>f\<close>. If \<open>f\<close>
  cannot be read or parsed, \<open>main\<close> exits with status 1. If \<open>f\<close> is read and startup
  reaches one of its session descriptors (the descriptors before it ended without an exit)
  and the descriptor passes its checks, then \<open>main\<close> exits with status 1 whenever the peer
  address does not resolve, resolves to an address that is not IPv4, the allocation of the
  record fails, or \<open>bfdRegisterSession\<close> refuses the record.
\<close>

theorem startup_fatal:
  assumes "snd (getopt_loop env opts (init_cmdline env) x0) = Inr (cmd, x)"
    and "configFile cmd = Some f"
  shows "((\<exists>err. config_read_file env f = Inl err) \<longrightarrow> snd (main env x0 opts) = Exit 1)
    \<and> (\<forall>cfg pre sn post regs l.
          config_read_file env f = Inr cfg \<and> Sessions cfg = Some (pre @ sn # post)
          \<and> snd (sessions_loop env (snd (parse_extensions env x cfg)) [] 0 pre) = Inr regs
          \<and> parse_session env (snd (parse_extensions env x cfg)) (length pre) sn = Inr l
          \<and> ((\<exists>herr. gethostbyname env (connectaddr l) = Inl herr)
               \<or> (\<exists>hp. gethostbyname env (connectaddr l) = Inr hp
                     \<and> (h_addrtype hp \<noteq> AF_INET \<or> \<not> malloc_ok env (length pre)
                          \<or> \<not> bfdRegisterSession env regs (make_session l (h_addr hp)))))
          \<longrightarrow> snd (main env x0 opts) = Exit 1)"
proof -
  have m: "snd (main env x0 opts) = Exit 1" if "snd (run_config env x cmd f) = Exit 1"
  proof (cases "daemon_mode cmd \<and> \<not> daemon_ok env")
    case True
    from main_no_daemon [OF assms True] show ?thesis by simp
  next
    case False
    from main_run_config [OF assms False] that show ?thesis by simp
  qed
  have unreadable: "(\<exists>err. config_read_file env f = Inl err) \<longrightarrow> snd (main env x0 opts) = Exit 1"
  proof
    assume "\<exists>err. config_read_file env f = Inl err"
    then have "snd (run_config env x cmd f) = Exit 1"
      by (auto simp add: run_config_snd)
    then show "snd (main env x0 opts) = Exit 1" by (rule m)
  qed
  have creation: "\<forall>cfg pre sn post regs l.
          config_read_file env f = Inr cfg \<and> Sessions cfg = Some (pre @ sn # post)
          \<and> snd (sessions_loop env (snd (parse_extensions env x cfg)) [] 0 pre) = Inr regs
          \<and> parse_session env (snd (parse_extensions env x cfg)) (length pre) sn = Inr l
          \<and> ((\<exists>herr. gethostbyname env (connectaddr l) = Inl herr)
               \<or> (\<exists>hp. gethostbyname env (connectaddr l) = Inr hp
                     \<and> (h_addrtype hp \<noteq> AF_INET \<or> \<not> malloc_ok env (length pre)
                          \<or> \<not> bfdRegisterSession env regs (make_session l (h_addr hp)))))
          \<longrightarrow> snd (main env x0 opts) = Exit 1"
  proof (intro allI impI)
    fix cfg pre sn post regs l
    assume a: "config_read_file env f = Inr cfg \<and> Sessions cfg = Some (pre @ sn # post)
          \<and> snd (sessions_loop env (snd (parse_extensions env x cfg)) [] 0 pre) = Inr regs
          \<and> parse_session env (snd (parse_extensions env x cfg)) (length pre) sn = Inr l
          \<and> ((\<exists>herr. gethostbyname env (connectaddr l) = Inl herr)
               \<or> (\<exists>hp. gethostbyname env (connectaddr l) = Inr hp
                     \<and> (h_addrtype hp \<noteq> AF_INET \<or> \<not> malloc_ok env (length pre)
                          \<or> \<not> bfdRegisterSession env regs (make_session l (h_addr hp)))))"
    then have "snd (sessions_loop env (snd (parse_extensions env x cfg)) [] 0 (pre @ sn # post))
                 = Inl 1"
      using sessions_loop_fatal [of env "snd (parse_extensions env x cfg)" "[]" pre regs sn l post]
      by blast
    with a have "snd (run_config env x cmd f) = Exit 1"
      by (simp add: run_config_snd parse_sessions_def)
    then show "snd (main env x0 opts) = Exit 1" by (rule m)
  qed
  from unreadable creation show ?thesis by (intro conjI)
qed

theorem startup_fatal_witness:
  "snd (getopt_loop (sample_env (sessions_only [])) [Opt_c ''missing.conf'']
          (init_cmdline (sample_env (sessions_only []))) [])
     = Inr (\<lparr>configFile = Some ''missing.conf'', daemon_mode = True, monitor_port = 15243\<rparr>, [])
   \<and> config_read_file (sample_env (sessions_only [])) ''missing.conf''
       = Inl (''missing.conf'', 0, ''file I/O error'')
   \<and> snd (main (sample_env (sessions_only [])) [] [Opt_c ''missing.conf'']) = Exit 1
   \<and> gethostbyname
        (sample_env (sessions_only [peer_only, peer_only\<lparr>cfg_PeerAddress := Some ''nowhere.invalid''\<rparr>]))
        ''nowhere.invalid'' = Inl ''Unknown host''
   \<and> snd (main
        (sample_env (sessions_only [peer_only, peer_only\<lparr>cfg_PeerAddress := Some ''nowhere.invalid''\<rparr>]))
        [] [Opt_c ''bfdd.conf'']) = Exit 1"
proof -
  let ?E = "sample_env (sessions_only [])"
  let ?bad = "peer_only\<lparr>cfg_PeerAddress := Some ''nowhere.invalid''\<rparr>"
  let ?F = "sample_env (sessions_only [peer_only, ?bad])"
  let ?B = "\<lparr>DemandMode = 0, DetectMult = 3, DesiredMinTxInterval = 100000,
            RequiredMinRxInterval = 100000, PeerAddr = 0xC0000201, PeerPort = 3784,
            LocalPort = 3784\<rparr>"
  let ?l = "\<lparr>connectaddr = ''nowhere.invalid'', peerPort = 3784, localport = 3784,
            demandMode = 0, detectMult = 3, reqMinRx = 100000, desMinTx = 100000\<rparr>"
  have g1: "snd (getopt_loop ?E [Opt_c ''missing.conf''] (init_cmdline ?E) [])
     = Inr (\<lparr>configFile = Some ''missing.conf'', daemon_mode = True, monitor_port = 15243\<rparr>, [])"
    by (simp add: init_cmdline_def sample_env_def)
  have r1: "config_read_file ?E ''missing.conf'' = Inl (''missing.conf'', 0, ''file I/O error'')"
    by (simp add: sample_env_def)
  have m1: "snd (main ?E [] [Opt_c ''missing.conf'']) = Exit 1"
    using startup_fatal [OF g1] r1 by simp
  have g2: "snd (getopt_loop ?F [Opt_c ''bfdd.conf''] (init_cmdline ?F) [])
     = Inr (\<lparr>configFile = Some ''bfdd.conf'', daemon_mode = True, monitor_port = 15243\<rparr>, [])"
    by (simp add: init_cmdline_def sample_env_def)
  have r2: "config_read_file ?F ''bfdd.conf'' = Inr (sessions_only [peer_only, ?bad])"
    by (simp add: sample_env_def)
  have s2: "Sessions (sessions_only [peer_only, ?bad]) = Some ([peer_only] @ ?bad # [])"
    by (simp add: sessions_only_def)
  have x2: "snd (parse_extensions ?F [] (sessions_only [peer_only, ?bad])) = []"
    by (simp add: parse_extensions_def sessions_only_def)
  have p2: "snd (sessions_loop ?F [] [] 0 [peer_only]) = Inr [?B]"
    by (simp add: no_fields_def peer_only_def sample_env_def session_body_def
      parse_session_def lookup_PeerPort_def lookup_LocalPort_def lookup_DetectMult_def
      create_session_def make_session_def AF_INET_def prepend_def)
  have q2: "parse_session ?F [] (length [peer_only]) ?bad = Inr ?l"
    by (simp add: no_fields_def peer_only_def sample_env_def
      parse_session_def lookup_PeerPort_def lookup_LocalPort_def lookup_DetectMult_def)
  have h2: "gethostbyname ?F ''nowhere.invalid'' = Inl ''Unknown host''"
    by (simp add: sample_env_def)
  have h2': "\<exists>herr. gethostbyname ?F (connectaddr ?l) = Inl herr"
    using h2 by simp
  have c2: "configFile \<lparr>configFile = Some ''bfdd.conf'', daemon_mode = True,
      monitor_port = 15243\<rparr> = Some ''bfdd.conf''"
    by simp
  have m2: "snd (main ?F [] [Opt_c ''bfdd.conf'']) = Exit 1"
    using startup_fatal [OF g2 c2, THEN conjunct2, rule_format,
        of "sessions_only [peer_only, ?bad]" "[peer_only]" ?bad "[]" "[?B]" ?l]
      r2 s2 x2 p2 q2 h2'
    by simp
  from g1 r1 m1 h2 m2 show ?thesis by (intro conjI)
qed

subsection \<open>Defaults\<close>

lemma create_session_register_event:
  "BfdRegisterSession bfd \<in> set (body_events (create_session env regs i l)) \<Longrightarrow>
   \<exists>hp. gethostbyname env (connectaddr l) = Inr hp \<and> bfd = make_session l (h_addr hp)"
  by (auto simp add: create_session_def body_events_def notice_line_def
        split: sum.splits if_splits)

lemma session_body_register_event:
  assumes "BfdRegisterSession bfd \<in> set (body_events (session_body env x regs i sn))"
  shows "\<exists>l hp. parse_session env x i sn = Inr l
           \<and> gethostbyname env (connectaddr l) = Inr hp \<and> bfd = make_session l (h_addr hp)"
proof (cases "parse_session env x i sn")
  case (Inl w)
  with assms have "BfdRegisterSession bfd \<in> set w"
    by (simp add: session_body_def body_events_def)
  from parse_session_events [OF Inl this] show ?thesis
    by (simp add: is_log_def)
next
  case (Inr l)
  with assms have "BfdRegisterSession bfd \<in> set (body_events (create_session env regs i l))"
    by (simp add: session_body_def)
  from create_session_register_event [OF this] Inr show ?thesis by blast
qed

lemma lookup_DetectMult_default:
  "cfg_DetectMult sn = None \<Longrightarrow> lookup_DetectMult env i lp sn = Inr (BFDDFLT_DETECTMULT env)"
  by (simp add: lookup_DetectMult_def)

lemma ucast_small:
  fixes d :: "32 word"
  assumes "uint d < 256"
  shows "uint (ucast d :: 8 word) = uint d"
proof -
  have "uint (ucast d :: 8 word) = take_bit 8 (uint d)"
    by (simp add: unsigned_ucast_eq)
  also have "\<dots> = uint d"
    using assms by (simp add: take_bit_int_eq_self)
  finally show ?thesis .
qed

text \<open>
  C4. Every record that a round of the Sessions loop hands to \<open>bfdRegisterSession\<close> carries
  the default of each optional field its descriptor omits: peer port 3784, local port
  3784, demand mode 0, and the constants \<open>BFDDFLT_DETECTMULT\<close>, \<open>BFDDFLT_REQUIREDMINRX\<close> and
  \<open>BFDDFLT_DESIREDMINTX\<close> (the detect multiplier through the cast to eight bits of line
  275, which keeps the value of a constant below 256). A descriptor with a peer address
  and no optional field, whose address resolves to IPv4 and whose record is allocated, has
  the record with exactly these values handed to \<open>bfdRegisterSession\<close>.
\<close>

theorem session_defaults:
  "(BfdRegisterSession bfd \<in> set (body_events (session_body env x regs i sn)) \<longrightarrow>
      (cfg_PeerPort sn = None \<longrightarrow> PeerPort bfd = 3784)
      \<and> (cfg_LocalPort sn = None \<longrightarrow> LocalPort bfd = 3784)
      \<and> (cfg_DemandMode sn = None \<longrightarrow> DemandMode bfd = 0)
      \<and> (cfg_DetectMult sn = None \<longrightarrow> DetectMult bfd = ucast (BFDDFLT_DETECTMULT env))
      \<and> (cfg_DetectMult sn = None \<and> uint (BFDDFLT_DETECTMULT env) < 256 \<longrightarrow>
           uint (DetectMult bfd) = uint (BFDDFLT_DETECTMULT env))
      \<and> (cfg_RequiredMinRxInterval sn = None \<longrightarrow>
           RequiredMinRxInterval bfd = BFDDFLT_REQUIREDMINRX env)
      \<and> (cfg_DesiredMinTxInterval sn = None \<longrightarrow>
           DesiredMinTxInterval bfd = BFDDFLT_DESIREDMINTX env))
   \<and> (cfg_PeerAddress sn = Some a \<and> cfg_PeerPort sn = None \<and> cfg_LocalPort sn = None
       \<and> cfg_DemandMode sn = None \<and> cfg_DetectMult sn = None
       \<and> cfg_RequiredMinRxInterval sn = None \<and> cfg_DesiredMinTxInterval sn = None
       \<and> gethostbyname env a = Inr hp \<and> h_addrtype hp = AF_INET \<and> malloc_ok env i \<longrightarrow>
         BfdRegisterSession
           \<lparr>DemandMode = 0, DetectMult = ucast (BFDDFLT_DETECTMULT env),
            DesiredMinTxInterval = BFDDFLT_DESIREDMINTX env,
            RequiredMinRxInterval = BFDDFLT_REQUIREDMINRX env,
            PeerAddr = h_addr hp, PeerPort = 3784, LocalPort = 3784\<rparr>
           \<in> set (body_events (session_body env x regs i sn)))"
proof -
  have fields: "BfdRegisterSession bfd \<in> set (body_events (session_body env x regs i sn)) \<longrightarrow>
      (cfg_PeerPort sn = None \<longrightarrow> PeerPort bfd = 3784)
      \<and> (cfg_LocalPort sn = None \<longrightarrow> LocalPort bfd = 3784)
      \<and> (cfg_DemandMode sn = None \<longrightarrow> DemandMode bfd = 0)
      \<and> (cfg_DetectMult sn = None \<longrightarrow> DetectMult bfd = ucast (BFDDFLT_DETECTMULT env))
      \<and> (cfg_DetectMult sn = None \<and> uint (BFDDFLT_DETECTMULT env) < 256 \<longrightarrow>
           uint (DetectMult bfd) = uint (BFDDFLT_DETECTMULT env))
      \<and> (cfg_RequiredMinRxInterval sn = None \<longrightarrow>
           RequiredMinRxInterval bfd = BFDDFLT_REQUIREDMINRX env)
      \<and> (cfg_DesiredMinTxInterval sn = None \<longrightarrow>
           DesiredMinTxInterval bfd = BFDDFLT_DESIREDMINTX env)"
  proof
    assume "BfdRegisterSession bfd \<in> set (body_events (session_body env x regs i sn))"
    from session_body_register_event [OF this] obtain l and peer :: hostent where
      p: "parse_session env x i sn = Inr l" and bfd: "bfd = make_session l (h_addr peer)"
      by blast
    note f = parse_session_Inr [OF p]
    have pp: "cfg_PeerPort sn = None \<longrightarrow> PeerPort bfd = 3784"
      using f lookup_PeerPort_Inr [of env x i sn "peerPort l"] bfd
      by (auto simp add: make_session_def)
    have lp: "cfg_LocalPort sn = None \<longrightarrow> LocalPort bfd = 3784"
      using f lookup_LocalPort_Inr [of env x i sn "localport l"] bfd
      by (auto simp add: make_session_def)
    have dm: "cfg_DemandMode sn = None \<longrightarrow> DemandMode bfd = 0"
      using f bfd by (auto simp add: make_session_def)
    have mult: "cfg_DetectMult sn = None \<longrightarrow> DetectMult bfd = ucast (BFDDFLT_DETECTMULT env)"
      using f bfd lookup_DetectMult_default [of sn env i "localport l"]
      by (auto simp add: make_session_def)
    have mult': "cfg_DetectMult sn = None \<and> uint (BFDDFLT_DETECTMULT env) < 256 \<longrightarrow>
           uint (DetectMult bfd) = uint (BFDDFLT_DETECTMULT env)"
      using mult ucast_small [of "BFDDFLT_DETECTMULT env"] by simp
    have rx: "cfg_RequiredMinRxInterval sn = None \<longrightarrow>
           RequiredMinRxInterval bfd = BFDDFLT_REQUIREDMINRX env"
      using f bfd by (auto simp add: make_session_def)
    have tx: "cfg_DesiredMinTxInterval sn = None \<longrightarrow>
           DesiredMinTxInterval bfd = BFDDFLT_DESIREDMINTX env"
      using f bfd by (auto simp add: make_session_def)
    from pp lp dm mult mult' rx tx
    show "(cfg_PeerPort sn = None \<longrightarrow> PeerPort bfd = 3784)
      \<and> (cfg_LocalPort sn = None \<longrightarrow> LocalPort bfd = 3784)
      \<and> (cfg_DemandMode sn = None \<longrightarrow> DemandMode bfd = 0)
      \<and> (cfg_DetectMult sn = None \<longrightarrow> DetectMult bfd = ucast (BFDDFLT_DETECTMULT env))
      \<and> (cfg_DetectMult sn = None \<and> uint (BFDDFLT_DETECTMULT env) < 256 \<longrightarrow>
           uint (DetectMult bfd) = uint (BFDDFLT_DETECTMULT env))
      \<and> (cfg_RequiredMinRxInterval sn = None \<longrightarrow>
           RequiredMinRxInterval bfd = BFDDFLT_REQUIREDMINRX env)
      \<and> (cfg_DesiredMinTxInterval sn = None \<longrightarrow>
           DesiredMinTxInterval bfd = BFDDFLT_DESIREDMINTX env)"
      by (intro conjI)
  qed
  have created: "cfg_PeerAddress sn = Some a \<and> cfg_PeerPort sn = None \<and> cfg_LocalPort sn = None
       \<and> cfg_DemandMode sn = None \<and> cfg_DetectMult sn = None
       \<and> cfg_RequiredMinRxInterval sn = None \<and> cfg_DesiredMinTxInterval sn = None
       \<and> gethostbyname env a = Inr hp \<and> h_addrtype hp = AF_INET \<and> malloc_ok env i \<longrightarrow>
         BfdRegisterSession
           \<lparr>DemandMode = 0, DetectMult = ucast (BFDDFLT_DETECTMULT env),
            DesiredMinTxInterval = BFDDFLT_DESIREDMINTX env,
            RequiredMinRxInterval = BFDDFLT_REQUIREDMINRX env,
            PeerAddr = h_addr hp, PeerPort = 3784, LocalPort = 3784\<rparr>
           \<in> set (body_events (session_body env x regs i sn))"
    by (simp add: session_body_def parse_session_def lookup_PeerPort_def lookup_LocalPort_def
          lookup_DetectMult_def create_session_def make_session_def body_events_def)
  from fields created show ?thesis by (intro conjI)
qed

theorem session_defaults_witness:
  "cfg_PeerAddress peer_only = Some ''192.0.2.1'' \<and> cfg_PeerPort peer_only = None
   \<and> cfg_LocalPort peer_only = None \<and> cfg_DemandMode peer_only = None
   \<and> cfg_DetectMult peer_only = None \<and> cfg_RequiredMinRxInterval peer_only = None
   \<and> cfg_DesiredMinTxInterval peer_only = None
   \<and> BfdRegisterSession
        \<lparr>DemandMode = 0, DetectMult = 3, DesiredMinTxInterval = 100000,
         RequiredMinRxInterval = 100000, PeerAddr = 0xC0000201, PeerPort = 3784,
         LocalPort = 3784\<rparr>
        \<in> set (body_events (session_body (sample_env (sessions_only [])) [] [] 0 peer_only))"
  using session_defaults [of _ "sample_env (sessions_only [])" "[]" "[]" 0 peer_only
      "''192.0.2.1''" "\<lparr>h_addrtype = 2, h_addr = 0xC0000201\<rparr>"]
  by (simp add: peer_only_def no_fields_def sample_env_def AF_INET_def)

section \<open>The round trip of the codec\<close>

lemma bytes32_be32: "bytes32 (be32 a b c d) = [a, b, c, d]"
  unfolding bytes32_def be32_def
  by (simp; intro conjI; rule bit_word_eqI) (auto simp add: bit_simps dest: bit_imp_le_length)

lemma first_byte: "push_bit 5 (ucast (ucast (drop_bit 5 b) :: 3 word)) OR ucast (ucast b :: 5 word) = (b :: 8 word)"
  by (rule bit_word_eqI) (auto simp add: bit_simps)

lemma bit_flag: "bit (flag f k) n = (f \<and> n = k \<and> k < 8)"
  by (auto simp add: flag_def bit_simps)

lemma bit_bits_of_state:
  "bit (bits_of_state s) n = (n = 7 \<and> (s = Init \<or> s = Up) \<or> n = 6 \<and> (s = Down \<or> s = Up))"
  by (auto simp add: bits_of_state_def bit_flag bit_or_iff)

lemma state_of_bits_iff:
  "(state_of_bits b = Init \<or> state_of_bits b = Up) = bit b 7"
  "(state_of_bits b = Down \<or> state_of_bits b = Up) = bit b 6"
  by (simp_all add: state_of_bits_def)

lemma second_byte:
  "bits_of_state (state_of_bits b) OR flag (bit b 5) 5 OR flag (bit b 4) 4 OR flag (bit b 3) 3
     OR flag (bit b 2) 2 OR flag (bit b 1) 1 OR flag (bit b 0) 0 = (b :: 8 word)"
proof (rule bit_word_eqI)
  fix n assume "n < LENGTH(8)"
  then have "n \<in> {0, 1, 2, 3, 4, 5, 6, 7}"
    by auto
  then show "bit (bits_of_state (state_of_bits b) OR flag (bit b 5) 5 OR flag (bit b 4) 4
      OR flag (bit b 3) 3 OR flag (bit b 2) 2 OR flag (bit b 1) 1 OR flag (bit b 0) 0) n
    = bit b n"
    unfolding bit_or_iff bit_flag bit_bits_of_state state_of_bits_iff
    by auto
qed

text \<open>
  C7. For every byte sequence \<open>bs\<close> that \<open>Decode\<close> accepts, encoding the decoded packet
  gives \<open>bs\<close> again, whatever the supported version is.
\<close>

theorem decode_encode: "Decode v bs = Inr p \<Longrightarrow> Encode p = bs"
  unfolding Decode_def
  by (auto simp add: Encode_def bytes32_be32 first_byte second_byte [unfolded One_nat_def]
        split: list.splits if_splits)

theorem decode_encode_witness:
  "Decode 1 [0x20, 0xC8, 3, 24, 0, 0, 0, 1, 0, 0, 0, 2, 0, 1, 0x86, 0xA0, 0, 1, 0x86, 0xA0,
             0, 0, 0, 0]
     = Inr \<lparr>version = 1, diag = 0, state = Up, poll = False, final = False,
            controlPlaneIndependent = True, authPresent = False, demand = False,
            multipoint = False, detectMultiplier = 3, packetLength = 24,
            localDiscriminator = 1, remoteDiscriminator = 2, desiredMinTx = 100000,
            requiredMinRx = 100000, requiredMinEchoRx = 0\<rparr>
   \<and> Encode \<lparr>version = 1, diag = 0, state = Up, poll = False, final = False,
            controlPlaneIndependent = True, authPresent = False, demand = False,
            multipoint = False, detectMultiplier = 3, packetLength = 24,
            localDiscriminator = 1, remoteDiscriminator = 2, desiredMinTx = 100000,
            requiredMinRx = 100000, requiredMinEchoRx = 0\<rparr>
     = [0x20, 0xC8, 3, 24, 0, 0, 0, 1, 0, 0, 0, 2, 0, 1, 0x86, 0xA0, 0, 1, 0x86, 0xA0,
        0, 0, 0, 0]"
proof -
  have d: "Decode 1 [0x20, 0xC8, 3, 24, 0, 0, 0, 1, 0, 0, 0, 2, 0, 1, 0x86, 0xA0, 0, 1, 0x86, 0xA0,
             0, 0, 0, 0]
     = Inr \<lparr>version = 1, diag = 0, state = Up, poll = False, final = False,
            controlPlaneIndependent = True, authPresent = False, demand = False,
            multipoint = False, detectMultiplier = 3, packetLength = 24,
            localDiscriminator = 1, remoteDiscriminator = 2, desiredMinTx = 100000,
            requiredMinRx = 100000, requiredMinEchoRx = 0\<rparr>"
    by code_simp
  from d decode_encode [OF d] show ?thesis by (rule conjI)
qed

end
